theory Spec2Isabelle
  imports Main "HOL-Library.Char_ord" "HOL-Library.List_Lexorder"
begin

section \<open>jsonframer: JSON text to data frames\<close>

text \<open>
  A shallow embedding of \<^verbatim>\<open>lib/go/jsonframer/jsonframer.go\<close> and of the error
  values of the package. The libraries the package calls (gjson, jsonata-go,
  encoding/json, gframer, the plugin SDK's frame operations) are not part of the
  package: they are the fields of a record that every function of the package takes
  as its first argument, so a theorem about \<open>ToFrames env\<close> holds for whatever those
  libraries compute.
\<close>

subsection \<open>Values\<close>

text \<open>
  A Go \<^verbatim>\<open>interface{}\<close> holding decoded JSON. A number is kept as its decimal
  text. An object is a Go \<^verbatim>\<open>map[string]interface{}\<close>, which has no order of its
  own: it is held as an association list sorted by key, without duplicate keys, when
  it is built by \<open>map_store\<close>.
\<close>

datatype json =
    JNull
  | JBool bool
  | JNum string
  | JStr string
  | JArr "json list"
  | JObj "(string \<times> json) list"

text \<open>\<^verbatim>\<open>m[k] = v\<close> on a Go map.\<close>

fun map_store :: "string \<Rightarrow> json \<Rightarrow> (string \<times> json) list \<Rightarrow> (string \<times> json) list" where
  "map_store k v [] = [(k, v)]"
| "map_store k v ((k', v') # m) =
     (if k = k' then (k, v) # m
      else if k < k' then (k, v) # (k', v') # m
      else (k', v') # map_store k v m)"

subsection \<open>Errors and panics\<close>

text \<open>
  A Go \<^verbatim>\<open>error\<close>: a message (\<^verbatim>\<open>errors.New\<close>, \<^verbatim>\<open>fmt.Errorf\<close>) or two errors joined
  (\<^verbatim>\<open>errors.Join\<close>). A call either returns its results or panics.
\<close>

datatype err = Err string | Join err err

datatype 'a outcome = Panic string | Return 'a

definition ErrInvalidRootSelector :: err where
  "ErrInvalidRootSelector = Err ''failed to compile JSONata expression''"

definition ErrEvaluatingJSONata :: err where
  "ErrEvaluatingJSONata = Err ''error evaluating JSONata expression''"

definition ErrInvalidJSONContent :: err where
  "ErrInvalidJSONContent = Err ''invalid/empty JSON''"

subsection \<open>Options\<close>

record ColumnSelector =
  Selector :: string
  Alias :: string
  Type :: string
  TimeFormat :: string

record FramerOptions =
  FramerType :: string
  SQLite3Query :: string
  FrameName :: string
  RootSelector :: string
  Columns :: "ColumnSelector list"
  OverrideColumns :: "ColumnSelector list"
  FrameFormat :: string

definition FrameFormatTable :: string where
  "FrameFormatTable = ''table''"

definition FrameFormatTimeSeries :: string where
  "FrameFormatTimeSeries = ''timeseries''"

text \<open>The options \<open>getFrameFromResponseString\<close> hands to \<^verbatim>\<open>gframer.ToDataFrame\<close>.\<close>

record gframer_FramerOptions =
  g_FrameName :: string
  g_Columns :: "ColumnSelector list"
  g_OverrideColumns :: "ColumnSelector list"

subsection \<open>gjson results\<close>

text \<open>
  \<^verbatim>\<open>gjson.Result\<close>: the kind of the value, its raw text in the document, the
  content of a string, and \<open>NumText\<close> for what \<^verbatim>\<open>strconv.FormatFloat\<close> prints for a
  number. The methods below follow the library's own definitions.
\<close>

datatype gjson_Type = Null | False_T | Number | String | True_T | JSON

record Result =
  rType :: gjson_Type
  Raw :: string
  Str :: string
  NumText :: string

definition Exists :: "Result \<Rightarrow> bool" where
  "Exists t = (rType t \<noteq> Null \<or> length (Raw t) \<noteq> 0)"

definition IsArray :: "Result \<Rightarrow> bool" where
  "IsArray t = (rType t = JSON \<and> length (Raw t) > 0 \<and> hd (Raw t) = CHR ''['')"

definition IsObject :: "Result \<Rightarrow> bool" where
  "IsObject t = (rType t = JSON \<and> length (Raw t) > 0 \<and> hd (Raw t) = CHR ''{'')"

definition is_digit :: "char \<Rightarrow> bool" where
  "is_digit c = (CHR ''0'' \<le> c \<and> c \<le> CHR ''9'')"

definition String_of :: "Result \<Rightarrow> string" where
  "String_of t =
     (case rType t of
        False_T \<Rightarrow> ''false''
      | Number \<Rightarrow>
          (if length (Raw t) = 0 then NumText t
           else if list_all is_digit (if hd (Raw t) = CHR ''-'' then tl (Raw t) else Raw t)
                then Raw t else NumText t)
      | String \<Rightarrow> Str t
      | JSON \<Rightarrow> Raw t
      | True_T \<Rightarrow> ''true''
      | Null \<Rightarrow> '''')"

subsection \<open>The libraries\<close>

text \<open>
  \<open>'e\<close> is a compiled JSONata expression, \<open>'f\<close> a \<^verbatim>\<open>data.Frame\<close>. A library
  call that returns \<^verbatim>\<open>(x, err)\<close> is a sum with the error on the left.
\<close>

datatype TimeSeriesType = TimeSeriesTypeNot | TimeSeriesTypeWide | TimeSeriesTypeLong

record ('e, 'f) env =
  gjson_Valid :: "string \<Rightarrow> bool"
  gjson_Parse :: "string \<Rightarrow> Result"
  gjson_Get :: "string \<Rightarrow> string \<Rightarrow> Result"
  gjson_Array :: "Result \<Rightarrow> Result list"
  gjson_arrayOrMap :: "string \<Rightarrow> json"
  jsonata_Compile :: "string \<Rightarrow> string + 'e"
  jsonata_Eval :: "'e \<Rightarrow> json \<Rightarrow> err + json"
  json_Unmarshal :: "string \<Rightarrow> string + json"
  json_Marshal :: "json \<Rightarrow> err + string"
  gframer_ToDataFrame :: "json \<Rightarrow> gframer_FramerOptions \<Rightarrow> err + 'f option"
  TimeSeriesSchema_Type :: "'f \<Rightarrow> TimeSeriesType"
  data_LongToWide :: "'f \<Rightarrow> err + 'f"
  QueryJSONUsingSQLite3 :: "string \<Rightarrow> string \<Rightarrow> string \<Rightarrow> err + string"

text \<open>
  \<^verbatim>\<open>jsonata.MustCompile\<close> panics when the expression does not compile and returns
  a non-nil expression otherwise.
\<close>

definition jsonata_MustCompile :: "('e, 'f) env \<Rightarrow> string \<Rightarrow> 'e option outcome" where
  "jsonata_MustCompile env expr =
     (case jsonata_Compile env expr of
        Inl msg \<Rightarrow> Panic (''could not compile '' @ expr @ '': '' @ msg)
      | Inr e \<Rightarrow> Return (Some e))"

text \<open>
  \<^verbatim>\<open>Result.Value\<close>: nil for a null or missing value, the scalar itself, and for
  an array or an object what the library decodes from the raw text.
\<close>

definition Value_of :: "('e, 'f) env \<Rightarrow> Result \<Rightarrow> json" where
  "Value_of env t =
     (case rType t of
        String \<Rightarrow> JStr (Str t)
      | False_T \<Rightarrow> JBool False
      | Number \<Rightarrow> JNum (NumText t)
      | JSON \<Rightarrow> gjson_arrayOrMap env (Raw t)
      | True_T \<Rightarrow> JBool True
      | Null \<Rightarrow> JNull)"

subsection \<open>validateJson\<close>

text \<open>
  \<^verbatim>\<open>strings.TrimSpace\<close> cuts the white space of Unicode (\<^verbatim>\<open>unicode.IsSpace\<close>) off both
  ends of a text, which is a sequence of bytes holding UTF-8. \<open>space_runes\<close> are the
  encodings of the white space runes: U+0009 to U+000D, U+0020, U+0085, U+00A0,
  U+1680, U+2000 to U+200A, U+2028, U+2029, U+202F, U+205F and U+3000. \<open>TrimLeft\<close>
  decodes from the front; \<open>TrimRight_rev\<close> works on the reversed text, as the
  library decodes the last rune from the back, and the bytes before a rune that is
  no white space, or that are no rune at all, stay.
\<close>

definition space_runes :: "string list" where
  "space_runes =
     [[CHR 0x09], [CHR 0x0A], [CHR 0x0B], [CHR 0x0C], [CHR 0x0D], [CHR 0x20],
      [CHR 0xC2, CHR 0x85], [CHR 0xC2, CHR 0xA0], [CHR 0xE1, CHR 0x9A, CHR 0x80],
      [CHR 0xE2, CHR 0x80, CHR 0x80], [CHR 0xE2, CHR 0x80, CHR 0x81],
      [CHR 0xE2, CHR 0x80, CHR 0x82], [CHR 0xE2, CHR 0x80, CHR 0x83],
      [CHR 0xE2, CHR 0x80, CHR 0x84], [CHR 0xE2, CHR 0x80, CHR 0x85],
      [CHR 0xE2, CHR 0x80, CHR 0x86], [CHR 0xE2, CHR 0x80, CHR 0x87],
      [CHR 0xE2, CHR 0x80, CHR 0x88], [CHR 0xE2, CHR 0x80, CHR 0x89],
      [CHR 0xE2, CHR 0x80, CHR 0x8A], [CHR 0xE2, CHR 0x80, CHR 0xA8],
      [CHR 0xE2, CHR 0x80, CHR 0xA9], [CHR 0xE2, CHR 0x80, CHR 0xAF],
      [CHR 0xE2, CHR 0x81, CHR 0x9F], [CHR 0xE3, CHR 0x80, CHR 0x80]]"

definition IsSpace :: "string \<Rightarrow> bool" where
  "IsSpace r = (r \<in> set space_runes)"

fun TrimLeft :: "string \<Rightarrow> string" where
  "TrimLeft [] = []"
| "TrimLeft (a # s) =
     (if IsSpace [a] then TrimLeft s
      else if IsSpace (a # take 1 s) then TrimLeft (drop 1 s)
      else if IsSpace (a # take 2 s) then TrimLeft (drop 2 s)
      else a # s)"

fun TrimRight_rev :: "string \<Rightarrow> string" where
  "TrimRight_rev [] = []"
| "TrimRight_rev (a # s) =
     (if IsSpace [a] then TrimRight_rev s
      else if IsSpace (rev (a # take 1 s)) then TrimRight_rev (drop 1 s)
      else if IsSpace (rev (a # take 2 s)) then TrimRight_rev (drop 2 s)
      else a # s)"

definition TrimSpace :: "string \<Rightarrow> string" where
  "TrimSpace s = rev (TrimRight_rev (rev (TrimLeft s)))"

definition validateJson :: "('e, 'f) env \<Rightarrow> string \<Rightarrow> err option" where
  "validateJson env jsonString =
     (if TrimSpace jsonString = '''' then Some (Err ''empty json received'')
      else if \<not> gjson_Valid env jsonString then Some (Err ''invalid json response received'')
      else None)"

subsection \<open>GetRootData\<close>

definition GetRootData :: "('e, 'f) env \<Rightarrow> string \<Rightarrow> string \<Rightarrow> (string \<times> err option) outcome" where
  "GetRootData env jsonString rootSelector =
     (if rootSelector \<noteq> '''' then
        (let r = gjson_Get env jsonString rootSelector in
         if Exists r then Return (String_of r, None)
         else
           (case jsonata_MustCompile env rootSelector of
              Panic p \<Rightarrow> Panic p
            | Return None \<Rightarrow>
                Return ('''', Some (Join ErrInvalidRootSelector
                                     (Err (''invalid root selector:'' @ rootSelector))))
            | Return (Some expr) \<Rightarrow>
                (case json_Unmarshal env jsonString of
                   Inl msg \<Rightarrow> Return ('''', Some (Join ErrInvalidJSONContent (Err msg)))
                 | Inr d \<Rightarrow>
                     (case jsonata_Eval env expr d of
                        Inl e \<Rightarrow> Return ('''', Some (Join ErrEvaluatingJSONata e))
                      | Inr res \<Rightarrow>
                          (case json_Marshal env res of
                             Inl e \<Rightarrow> Return ('''', Some (Join ErrInvalidJSONContent e))
                           | Inr r2 \<Rightarrow> Return (r2, None))))))
      else Return (jsonString, None))"

subsection \<open>Column projection\<close>

definition convertFieldValueType :: "json \<Rightarrow> ColumnSelector \<Rightarrow> json" where
  "convertFieldValueType input col = input"

definition column_name :: "ColumnSelector \<Rightarrow> string" where
  "column_name col = (if Alias col = '''' then Selector col else Alias col)"

text \<open>
  The body of both loops over \<open>columns\<close>: the map \<open>oi\<close> built for one row. The rows
  of an array are those \<^verbatim>\<open>Result.ForEach\<close> visits, the elements \<^verbatim>\<open>Result.Array\<close>
  returns.
\<close>

definition project_row :: "('e, 'f) env \<Rightarrow> string \<Rightarrow> ColumnSelector list \<Rightarrow> (string \<times> json) list" where
  "project_row env raw columns =
     foldl (\<lambda>oi col. map_store (column_name col)
                       (convertFieldValueType (Value_of env (gjson_Get env raw (Selector col))) col) oi)
           [] columns"

definition projected_rows :: "('e, 'f) env \<Rightarrow> string \<Rightarrow> ColumnSelector list \<Rightarrow> (string \<times> json) list list" where
  "projected_rows env responseString columns =
     (let result = gjson_Parse env responseString;
          out = (if IsArray result
                 then map (\<lambda>v. project_row env (Raw v) columns) (gjson_Array env result)
                 else [])
      in if \<not> IsArray result \<and> IsObject result
         then out @ [project_row env (Raw result) columns]
         else out)"

definition getColumnValuesFromResponseString ::
  "('e, 'f) env \<Rightarrow> string \<Rightarrow> ColumnSelector list \<Rightarrow> string \<times> err option" where
  "getColumnValuesFromResponseString env responseString columns =
     (if length columns > 0 then
        (case json_Marshal env (JArr (map JObj (projected_rows env responseString columns))) of
           Inl e \<Rightarrow> ('''', Some e)
         | Inr a \<Rightarrow> (a, None))
      else (responseString, None))"

subsection \<open>Frames\<close>

definition getFrameFromResponseString ::
  "('e, 'f) env \<Rightarrow> string \<Rightarrow> FramerOptions \<Rightarrow> err + 'f option" where
  "getFrameFromResponseString env responseString options =
     (case json_Unmarshal env responseString of
        Inl msg \<Rightarrow> Inl (Err (''error while un-marshaling response. '' @ msg))
      | Inr out \<Rightarrow>
          gframer_ToDataFrame env out
            \<lparr>g_FrameName = FrameName options,
             g_Columns = Columns options,
             g_OverrideColumns = OverrideColumns options\<rparr>)"

text \<open>
  A \<^verbatim>\<open>*data.Frame\<close> is \<open>'f option\<close>, \<open>None\<close> being the nil pointer, and the
  returned slice a list of them. \<open>reshape\<close> is the conversion that two of the three
  paths of \<open>ToFrames\<close> apply to a built frame, and \<open>add_frame\<close> the whole step they
  take with it: nothing for a nil frame, the conversion, then the append.
\<close>

definition reshape :: "('e, 'f) env \<Rightarrow> FramerOptions \<Rightarrow> 'f \<Rightarrow> err + 'f" where
  "reshape env options frame =
     (if FrameFormat options = FrameFormatTimeSeries
         \<and> TimeSeriesSchema_Type env frame = TimeSeriesTypeLong
      then data_LongToWide env frame
      else Inr frame)"

definition add_frame ::
  "('e, 'f) env \<Rightarrow> FramerOptions \<Rightarrow> 'f option list \<Rightarrow> 'f option \<Rightarrow> 'f option list \<times> err option" where
  "add_frame env options frames frame =
     (case frame of
        None \<Rightarrow> (frames, None)
      | Some f \<Rightarrow>
          (case reshape env options f of
             Inl e \<Rightarrow> (frames, Some e)
           | Inr w \<Rightarrow> (frames @ [Some w], None)))"

text \<open>The loop over the inner arrays, \<open>frames\<close> being the slice built so far.\<close>

fun frames_loop ::
  "('e, 'f) env \<Rightarrow> FramerOptions \<Rightarrow> 'f option list \<Rightarrow> Result list \<Rightarrow> 'f option list \<times> err option" where
  "frames_loop env options frames [] = (frames, None)"
| "frames_loop env options frames (v # vs) =
     (case getFrameFromResponseString env (Raw v) options of
        Inl e \<Rightarrow> (frames, Some e)
      | Inr frame \<Rightarrow>
          (case add_frame env options frames frame of
             (frames', Some e) \<Rightarrow> (frames', Some e)
           | (frames', None) \<Rightarrow> frames_loop env options frames' vs))"

definition nonArrayItemsFound :: "Result list \<Rightarrow> bool" where
  "nonArrayItemsFound items = list_ex (\<lambda>item. Exists item \<and> \<not> IsArray item) items"

definition ToFrames ::
  "('e, 'f) env \<Rightarrow> string \<Rightarrow> FramerOptions \<Rightarrow> ('f option list \<times> err option) outcome" where
  "ToFrames env jsonString options =
     (case validateJson env jsonString of
        Some e \<Rightarrow> Return ([], Some e)
      | None \<Rightarrow>
          (if FramerType options = ''sqlite3''
           then Return ([], Some (Err ''multi frame support not implemented for sqlite3 parser''))
           else
             (case GetRootData env jsonString (RootSelector options) of
                Panic p \<Rightarrow> Panic p
              | Return (_, Some e) \<Rightarrow> Return ([], Some e)
              | Return (outString0, None) \<Rightarrow>
                  (case getColumnValuesFromResponseString env outString0 (Columns options) of
                     (_, Some e) \<Rightarrow> Return ([], Some e)
                   | (outString, None) \<Rightarrow>
                       (let result = gjson_Parse env outString in
                        if IsArray result then
                          (if nonArrayItemsFound (gjson_Array env result) then
                             (case getFrameFromResponseString env outString options of
                                Inl e \<Rightarrow> Return ([], Some e)
                              | Inr frame \<Rightarrow> Return ([frame], None))
                           else Return (frames_loop env options [] (gjson_Array env result)))
                        else
                          (case getFrameFromResponseString env outString options of
                             Inl e \<Rightarrow> Return ([], Some e)
                           | Inr frame \<Rightarrow> Return (add_frame env options [] frame)))))))"

definition ToFrame ::
  "('e, 'f) env \<Rightarrow> string \<Rightarrow> FramerOptions \<Rightarrow> ('f option \<times> err option) outcome" where
  "ToFrame env jsonString options =
     (case validateJson env jsonString of
        Some e \<Rightarrow> Return (None, Some e)
      | None \<Rightarrow>
          (if FramerType options = ''sqlite3'' then
             (case QueryJSONUsingSQLite3 env jsonString (SQLite3Query options) (RootSelector options) of
                Inl e \<Rightarrow> Return (None, Some e)
              | Inr outString \<Rightarrow>
                  (case getFrameFromResponseString env outString options of
                     Inl e \<Rightarrow> Return (None, Some e)
                   | Inr frame \<Rightarrow> Return (frame, None)))
           else
             (case GetRootData env jsonString (RootSelector options) of
                Panic p \<Rightarrow> Panic p
              | Return (_, Some e) \<Rightarrow> Return (None, Some e)
              | Return (outString0, None) \<Rightarrow>
                  (case getColumnValuesFromResponseString env outString0 (Columns options) of
                     (_, Some e) \<Rightarrow> Return (None, Some e)
                   | (outString, None) \<Rightarrow>
                       (case getFrameFromResponseString env outString options of
                          Inl e \<Rightarrow> Return (None, Some e)
                        | Inr frame \<Rightarrow> Return (frame, None))))))"

section \<open>A reference implementation of the libraries\<close>

text \<open>
  The closed instances below need libraries that compute. \<open>env0\<close> reads and writes
  compact JSON (no white space, no escapes in strings, integer numbers with an
  optional exponent, each kept as its literal), resolves
  gjson paths made of object keys and array indices separated by dots, and knows the
  JSONata programs that are such field paths; on these inputs it answers as the real
  libraries do. Its frame is the decoded value under the frame's name.
\<close>

subsection \<open>Writing JSON\<close>

fun render :: "json \<Rightarrow> string"
  and render_elems :: "json list \<Rightarrow> string"
  and render_members :: "(string \<times> json) list \<Rightarrow> string" where
  "render JNull = ''null''"
| "render (JBool b) = (if b then ''true'' else ''false'')"
| "render (JNum t) = t"
| "render (JStr t) = [CHR 0x22] @ t @ [CHR 0x22]"
| "render (JArr xs) = ''['' @ render_elems xs @ '']''"
| "render (JObj ms) = ''{'' @ render_members ms @ ''}''"
| "render_elems [] = []"
| "render_elems [x] = render x"
| "render_elems (x # y # xs) = render x @ '','' @ render_elems (y # xs)"
| "render_members [] = []"
| "render_members [(k, v)] = [CHR 0x22] @ k @ [CHR 0x22] @ '':'' @ render v"
| "render_members ((k, v) # m # ms) =
     [CHR 0x22] @ k @ [CHR 0x22] @ '':'' @ render v @ '','' @ render_members (m # ms)"

subsection \<open>Reading JSON\<close>

fun p_string :: "string \<Rightarrow> (string \<times> string) option" where
  "p_string [] = None"
| "p_string (c # cs) =
     (if c = CHR 0x22 then Some ([], cs)
      else if c = CHR 0x5C \<or> c < CHR 0x20 then None
      else (case p_string cs of None \<Rightarrow> None | Some (t, r) \<Rightarrow> Some (c # t, r)))"

text \<open>The length of the exponent at the head of \<open>r\<close>, 0 when there is none.\<close>

definition p_exponent :: "string \<Rightarrow> nat" where
  "p_exponent r =
     (if r \<noteq> [] \<and> (hd r = CHR ''e'' \<or> hd r = CHR ''E'') then
        (let sg = (if tl r \<noteq> [] \<and> (hd (tl r) = CHR ''+'' \<or> hd (tl r) = CHR ''-'')
                   then 1 else 0);
             es = takeWhile is_digit (drop sg (tl r))
         in if es = [] then 0 else 1 + sg + length es)
      else 0)"

definition p_number :: "string \<Rightarrow> (json \<times> string) option" where
  "p_number s =
     (let body = (if s \<noteq> [] \<and> hd s = CHR ''-'' then tl s else s);
          ds = takeWhile is_digit body;
          m = length s - length body + length ds;
          n = m + p_exponent (drop m s)
      in if ds = [] \<or> (length ds > 1 \<and> hd ds = CHR ''0'') then None
         else Some (JNum (take n s), drop n s))"

definition p_atom :: "string \<Rightarrow> (json \<times> string) option" where
  "p_atom s =
     (if take 4 s = ''null'' then Some (JNull, drop 4 s)
      else if take 4 s = ''true'' then Some (JBool True, drop 4 s)
      else if take 5 s = ''false'' then Some (JBool False, drop 5 s)
      else p_number s)"

fun p_value :: "nat \<Rightarrow> string \<Rightarrow> (json \<times> string) option"
  and p_elems :: "nat \<Rightarrow> string \<Rightarrow> (json list \<times> string) option"
  and p_members :: "nat \<Rightarrow> string \<Rightarrow> ((string \<times> json) list \<times> string) option" where
  "p_value 0 s = None"
| "p_value (Suc n) [] = None"
| "p_value (Suc n) (c # cs) =
     (if c = CHR ''['' then
        (if cs \<noteq> [] \<and> hd cs = CHR '']'' then Some (JArr [], tl cs)
         else (case p_elems n cs of None \<Rightarrow> None | Some (xs, r) \<Rightarrow> Some (JArr xs, r)))
      else if c = CHR ''{'' then
        (if cs \<noteq> [] \<and> hd cs = CHR ''}'' then Some (JObj [], tl cs)
         else (case p_members n cs of None \<Rightarrow> None | Some (ms, r) \<Rightarrow> Some (JObj ms, r)))
      else if c = CHR 0x22 then
        (case p_string cs of None \<Rightarrow> None | Some (t, r) \<Rightarrow> Some (JStr t, r))
      else p_atom (c # cs))"
| "p_elems 0 s = None"
| "p_elems (Suc n) s =
     (case p_value n s of
        None \<Rightarrow> None
      | Some (v, r) \<Rightarrow>
          (if r \<noteq> [] \<and> hd r = CHR '','' then
             (case p_elems n (tl r) of None \<Rightarrow> None | Some (vs, r') \<Rightarrow> Some (v # vs, r'))
           else if r \<noteq> [] \<and> hd r = CHR '']'' then Some ([v], tl r)
           else None))"
| "p_members 0 s = None"
| "p_members (Suc n) s =
     (if s \<noteq> [] \<and> hd s = CHR 0x22 then
        (case p_string (tl s) of
           None \<Rightarrow> None
         | Some (k, r0) \<Rightarrow>
             (if r0 \<noteq> [] \<and> hd r0 = CHR '':'' then
                (case p_value n (tl r0) of
                   None \<Rightarrow> None
                 | Some (v, r) \<Rightarrow>
                     (if r \<noteq> [] \<and> hd r = CHR '','' then
                        (case p_members n (tl r) of
                           None \<Rightarrow> None
                         | Some (ms, r') \<Rightarrow> Some ((k, v) # ms, r'))
                      else if r \<noteq> [] \<and> hd r = CHR ''}'' then Some ([(k, v)], tl r)
                      else None))
              else None))
      else None)"

definition parse :: "string \<Rightarrow> json option" where
  "parse s = (case p_value (Suc (length s)) s of Some (v, []) \<Rightarrow> Some v | _ \<Rightarrow> None)"

subsection \<open>gjson\<close>

definition result_of :: "json \<Rightarrow> Result" where
  "result_of v =
     \<lparr>rType = (case v of JNull \<Rightarrow> Null | JBool b \<Rightarrow> (if b then True_T else False_T)
                | JNum t \<Rightarrow> Number | JStr t \<Rightarrow> String | JArr xs \<Rightarrow> JSON | JObj ms \<Rightarrow> JSON),
      Raw = render v,
      Str = (case v of JStr t \<Rightarrow> t | _ \<Rightarrow> []),
      NumText = (case v of JNum t \<Rightarrow> t | _ \<Rightarrow> [])\<rparr>"

text \<open>The result of a path that leads nowhere: \<^verbatim>\<open>Result{}\<close>.\<close>

definition no_result :: Result where
  "no_result = \<lparr>rType = Null, Raw = [], Str = [], NumText = []\<rparr>"

text \<open>
  Decoding into Go values: an object becomes a map, a later duplicate key replacing
  an earlier one.
\<close>

fun to_go :: "json \<Rightarrow> json"
  and to_go_elems :: "json list \<Rightarrow> json list"
  and to_go_members :: "(string \<times> json) list \<Rightarrow> (string \<times> json) list \<Rightarrow> (string \<times> json) list" where
  "to_go (JArr xs) = JArr (to_go_elems xs)"
| "to_go (JObj ms) = JObj (to_go_members [] ms)"
| "to_go JNull = JNull"
| "to_go (JBool b) = JBool b"
| "to_go (JNum t) = JNum t"
| "to_go (JStr t) = JStr t"
| "to_go_elems [] = []"
| "to_go_elems (x # xs) = to_go x # to_go_elems xs"
| "to_go_members acc [] = acc"
| "to_go_members acc ((k, v) # ms) = to_go_members (map_store k (to_go v) acc) ms"

fun split_dots :: "string \<Rightarrow> string \<Rightarrow> string list" where
  "split_dots cur [] = [rev cur]"
| "split_dots cur (c # cs) =
     (if c = CHR ''.'' then rev cur # split_dots [] cs else split_dots (c # cur) cs)"

fun index_of :: "string \<Rightarrow> nat \<Rightarrow> nat" where
  "index_of [] acc = acc"
| "index_of (c # cs) acc = index_of cs (10 * acc + (of_char c - of_char CHR ''0''))"

fun get_path :: "json \<Rightarrow> string list \<Rightarrow> json option" where
  "get_path v [] = Some v"
| "get_path (JObj ms) (k # ks) =
     (case map_of ms k of None \<Rightarrow> None | Some w \<Rightarrow> get_path w ks)"
| "get_path (JArr xs) (k # ks) =
     (if k \<noteq> [] \<and> list_all is_digit k \<and> index_of k 0 < length xs
      then get_path (xs ! index_of k 0) ks else None)"
| "get_path v (k # ks) = None"

definition get0 :: "string \<Rightarrow> string \<Rightarrow> Result" where
  "get0 s path =
     (case parse s of
        None \<Rightarrow> no_result
      | Some v \<Rightarrow> (case get_path v (split_dots [] path) of
                    None \<Rightarrow> no_result
                  | Some w \<Rightarrow> result_of w))"

definition parse0 :: "string \<Rightarrow> Result" where
  "parse0 s = (case parse s of None \<Rightarrow> no_result | Some v \<Rightarrow> result_of v)"

definition array0 :: "Result \<Rightarrow> Result list" where
  "array0 r =
     (case parse (Raw r) of
        Some (JArr xs) \<Rightarrow> map result_of xs
      | _ \<Rightarrow> (if rType r = Null then [] else [r]))"

definition arrayOrMap0 :: "string \<Rightarrow> json" where
  "arrayOrMap0 raw = (case parse raw of None \<Rightarrow> JNull | Some v \<Rightarrow> to_go v)"

subsection \<open>JSONata, encoding/json and frames\<close>

definition is_name_char :: "char \<Rightarrow> bool" where
  "is_name_char c =
     (is_digit c \<or> (CHR ''a'' \<le> c \<and> c \<le> CHR ''z'') \<or> (CHR ''A'' \<le> c \<and> c \<le> CHR ''Z'')
      \<or> c = CHR ''_'')"

definition compile0 :: "string \<Rightarrow> string + string list" where
  "compile0 expr =
     (if list_all (\<lambda>k. k \<noteq> [] \<and> list_all is_name_char k \<and> \<not> is_digit (hd k)) (split_dots [] expr)
      then Inr (split_dots [] expr) else Inl ''syntax error'')"

definition eval0 :: "string list \<Rightarrow> json \<Rightarrow> err + json" where
  "eval0 p d = (case get_path d p of None \<Rightarrow> Inl (Err ''no results found'') | Some v \<Rightarrow> Inr v)"

text \<open>
  The numbers this implementation knows to be outside \<^verbatim>\<open>float64\<close>: a mantissa that
  is not zero with an exponent of 309 or more; \<^verbatim>\<open>json.Unmarshal\<close> fails on them.
  \<open>bad_number\<close> is the first such number of a document.
\<close>

definition out_of_range :: "string \<Rightarrow> bool" where
  "out_of_range lit =
     (let mant = takeWhile (\<lambda>c. c \<noteq> CHR ''e'' \<and> c \<noteq> CHR ''E'') lit;
          ex = drop (Suc (length mant)) lit
      in ex \<noteq> [] \<and> hd ex \<noteq> CHR ''-''
         \<and> list_ex (\<lambda>c. is_digit c \<and> c \<noteq> CHR ''0'') mant
         \<and> 309 \<le> index_of (filter is_digit ex) 0)"

fun bad_number :: "json \<Rightarrow> string option"
  and bad_number_elems :: "json list \<Rightarrow> string option"
  and bad_number_members :: "(string \<times> json) list \<Rightarrow> string option" where
  "bad_number (JNum t) = (if out_of_range t then Some t else None)"
| "bad_number (JArr xs) = bad_number_elems xs"
| "bad_number (JObj ms) = bad_number_members ms"
| "bad_number JNull = None"
| "bad_number (JBool b) = None"
| "bad_number (JStr t) = None"
| "bad_number_elems [] = None"
| "bad_number_elems (x # xs) =
     (case bad_number x of None \<Rightarrow> bad_number_elems xs | Some t \<Rightarrow> Some t)"
| "bad_number_members [] = None"
| "bad_number_members ((k, v) # ms) =
     (case bad_number v of None \<Rightarrow> bad_number_members ms | Some t \<Rightarrow> Some t)"

definition unmarshal0 :: "string \<Rightarrow> string + json" where
  "unmarshal0 s =
     (case parse s of
        None \<Rightarrow> Inl ''invalid character''
      | Some v \<Rightarrow>
          (case bad_number v of
             Some t \<Rightarrow> Inl (''json: cannot unmarshal number '' @ t @ '' into Go value of type float64'')
           | None \<Rightarrow> Inr (to_go v)))"

record frame0 =
  f_name :: string
  f_value :: json
  f_shape :: TimeSeriesType

definition env0 :: "(string list, frame0) env" where
  "env0 =
     \<lparr>gjson_Valid = (\<lambda>s. parse s \<noteq> None),
      gjson_Parse = parse0,
      gjson_Get = get0,
      gjson_Array = array0,
      gjson_arrayOrMap = arrayOrMap0,
      jsonata_Compile = compile0,
      jsonata_Eval = eval0,
      json_Unmarshal = unmarshal0,
      json_Marshal = (\<lambda>v. Inr (render v)),
      gframer_ToDataFrame =
        (\<lambda>v opts. Inr (Some \<lparr>f_name = g_FrameName opts, f_value = v, f_shape = TimeSeriesTypeNot\<rparr>)),
      TimeSeriesSchema_Type = f_shape,
      data_LongToWide = (\<lambda>f. Inr (f\<lparr>f_shape := TimeSeriesTypeWide\<rparr>)),
      QueryJSONUsingSQLite3 = (\<lambda>s q r. Inl (Err ''sqlite3 is not available''))\<rparr>"

definition options0 :: FramerOptions where
  "options0 =
     \<lparr>FramerType = [], SQLite3Query = [], FrameName = [], RootSelector = [],
      Columns = [], OverrideColumns = [], FrameFormat = []\<rparr>"

definition column :: "string \<Rightarrow> string \<Rightarrow> ColumnSelector" where
  "column sel al = \<lparr>Selector = sel, Alias = al, Type = [], TimeFormat = []\<rparr>"

section \<open>The frame assembler\<close>

text \<open>
  Modelled from the spec: the frame (3, Data model) that \<^verbatim>\<open>gframer.ToDataFrame\<close>
  builds; the package \<^verbatim>\<open>lib/go/gframer\<close> of this repository is not among the
  sources. A frame is a name and an ordered list of columns, a column a name, a type
  and its values, one per row; the labels of a column are empty in an assembled frame
  and name the series in a reshaped one. A time is kept in milliseconds since the
  epoch, a number as its decimal text.
\<close>

datatype FieldType =
  FieldTypeGeneric | FieldTypeString | FieldTypeNumber | FieldTypeBoolean | FieldTypeTime

datatype cell = CNull | CBool bool | CNum string | CStr string | CTime int | CJSON json

record Column =
  col_name :: string
  col_labels :: "(string \<times> string) list"
  col_type :: FieldType
  col_values :: "cell list"

record Frame =
  frame_Name :: string
  frame_Columns :: "Column list"

text \<open>
  Modelled from the spec: the row count of a frame (3), the common length of its
  columns, zero for a frame without columns.
\<close>

definition frame_rows :: "Frame \<Rightarrow> nat" where
  "frame_rows f = (case frame_Columns f of [] \<Rightarrow> 0 | c # cs \<Rightarrow> length (col_values c))"

text \<open>
  Modelled from the spec: the raw value of a cell (4.2, 4.3), a scalar or a nested
  array or object.
\<close>

fun cell_of_json :: "json \<Rightarrow> cell" where
  "cell_of_json JNull = CNull"
| "cell_of_json (JBool b) = CBool b"
| "cell_of_json (JNum t) = CNum t"
| "cell_of_json (JStr t) = CStr t"
| "cell_of_json (JArr xs) = CJSON (JArr xs)"
| "cell_of_json (JObj ms) = CJSON (JObj ms)"

text \<open>
  Modelled from the spec: the declared types of 3 and 4.2; any other type name, the
  empty one and \<^verbatim>\<open>auto\<close> among them, declares nothing. The tests of the package
  name the milliseconds type \<^verbatim>\<open>timestamp_epoch\<close>, the spec \<^verbatim>\<open>timestamp_epoch_ms\<close>.
\<close>

definition field_type :: "string \<Rightarrow> FieldType" where
  "field_type ty =
     (if ty = ''string'' then FieldTypeString
      else if ty = ''number'' then FieldTypeNumber
      else if ty = ''boolean'' then FieldTypeBoolean
      else if ty = ''timestamp'' \<or> ty = ''timestamp_epoch'' \<or> ty = ''timestamp_epoch_ms''
              \<or> ty = ''timestamp_epoch_s'' then FieldTypeTime
      else FieldTypeGeneric)"

definition is_auto :: "string \<Rightarrow> bool" where
  "is_auto ty = (field_type ty = FieldTypeGeneric)"

text \<open>
  Modelled from the spec: the texts that parse as a number (4.2, \<^verbatim>\<open>number\<close>): an
  optional minus sign, digits, and an optional fraction; \<open>whole_number\<close> is the value
  of such a text without a fraction.
\<close>

definition numeric_text :: "string \<Rightarrow> bool" where
  "numeric_text t =
     (let b = (if t \<noteq> [] \<and> hd t = CHR ''-'' then tl t else t);
          i = takeWhile is_digit b;
          r = drop (length i) b
      in i \<noteq> [] \<and> (r = [] \<or> (hd r = CHR ''.'' \<and> tl r \<noteq> [] \<and> list_all is_digit (tl r))))"

fun digits_value :: "string \<Rightarrow> int \<Rightarrow> int" where
  "digits_value [] acc = acc"
| "digits_value (c # cs) acc = digits_value cs (10 * acc + (of_char c - of_char CHR ''0''))"

definition whole_number :: "string \<Rightarrow> int option" where
  "whole_number t =
     (if t \<noteq> [] \<and> hd t = CHR ''-'' \<and> tl t \<noteq> [] \<and> list_all is_digit (tl t)
      then Some (- digits_value (tl t) 0)
      else if t \<noteq> [] \<and> list_all is_digit t then Some (digits_value t 0)
      else None)"

text \<open>
  Modelled from the spec: a number or a numeric text read as a count of units since
  the epoch (4.2, \<^verbatim>\<open>timestamp_epoch_ms\<close> and \<^verbatim>\<open>timestamp_epoch_s\<close>), \<open>k\<close> being the
  milliseconds in a unit; what is no such count gives null (7).
\<close>

definition epoch :: "int \<Rightarrow> cell \<Rightarrow> cell" where
  "epoch k c =
     (case c of
        CNum t \<Rightarrow> (case whole_number t of Some i \<Rightarrow> CTime (k * i) | None \<Rightarrow> CNull)
      | CStr t \<Rightarrow> (case whole_number t of Some i \<Rightarrow> CTime (k * i) | None \<Rightarrow> CNull)
      | CTime i \<Rightarrow> CTime i
      | CJSON v \<Rightarrow> CJSON v
      | _ \<Rightarrow> CNull)"

text \<open>
  Modelled from the spec: the conversion of a stored value by the type of its column
  (4.2): \<^verbatim>\<open>string\<close> renders a scalar as text; \<^verbatim>\<open>number\<close> keeps a number, parses a
  text, and gives null for a text that does not parse; \<^verbatim>\<open>timestamp\<close> parses a text
  by the given layout, or by the standard one when the layout is empty, \<open>tp\<close> being
  the parser of the time library; the epoch types read milliseconds and seconds;
  with no declared type the value passes as it is. A value that cannot be converted
  gives null (7). A nested value is left for \<open>nested_cell\<close> to reject.
\<close>

definition coerce :: "(string \<Rightarrow> string \<Rightarrow> int option) \<Rightarrow> string \<Rightarrow> string \<Rightarrow> cell \<Rightarrow> cell" where
  "coerce tp ty layout c =
     (if ty = ''string'' then
        (case c of
           CBool b \<Rightarrow> CStr (if b then ''true'' else ''false'')
         | CNum t \<Rightarrow> CStr t
         | _ \<Rightarrow> c)
      else if ty = ''number'' then
        (case c of
           CNum t \<Rightarrow> CNum t
         | CStr t \<Rightarrow> (if numeric_text t then CNum t else CNull)
         | CJSON v \<Rightarrow> CJSON v
         | _ \<Rightarrow> CNull)
      else if ty = ''boolean'' then
        (case c of CBool b \<Rightarrow> CBool b | CJSON v \<Rightarrow> CJSON v | _ \<Rightarrow> CNull)
      else if ty = ''timestamp'' then
        (case c of
           CStr t \<Rightarrow> (case tp layout t of Some i \<Rightarrow> CTime i | None \<Rightarrow> CNull)
         | CTime i \<Rightarrow> CTime i
         | CJSON v \<Rightarrow> CJSON v
         | _ \<Rightarrow> CNull)
      else if ty = ''timestamp_epoch_ms'' \<or> ty = ''timestamp_epoch'' then epoch 1 c
      else if ty = ''timestamp_epoch_s'' then epoch 1000 c
      else c)"

text \<open>
  Modelled from the spec: the inferred type of a column (4.3, step 2): numeric when
  all its values that are not null are numbers, boolean when all are booleans,
  string otherwise, and generic when all are null.
\<close>

definition infer_type :: "cell list \<Rightarrow> FieldType" where
  "infer_type cells =
     (let nn = filter (\<lambda>c. c \<noteq> CNull) cells
      in if nn = [] then FieldTypeGeneric
         else if list_all (\<lambda>c. case c of CNum t \<Rightarrow> True | _ \<Rightarrow> False) nn then FieldTypeNumber
         else if list_all (\<lambda>c. case c of CBool b \<Rightarrow> True | _ \<Rightarrow> False) nn then FieldTypeBoolean
         else FieldTypeString)"

text \<open>
  Modelled from the spec: the rows of the assembler's input (4.2, 4.4): the elements
  of an array, and anything else as one row.
\<close>

definition rows_of :: "json \<Rightarrow> json list" where
  "rows_of v = (case v of JArr xs \<Rightarrow> xs | _ \<Rightarrow> [v])"

text \<open>The decimal text of a natural number.\<close>

fun show_nat :: "nat \<Rightarrow> string" where
  "show_nat n =
     (if n < 10 then [char_of (48 + n)]
      else show_nat (n div 10) @ [char_of (48 + n mod 10)])"

declare show_nat.simps [simp del]

text \<open>
  Modelled from the spec: the keys of a row (4.3, step 1, "keys/indices"): the keys
  of an object, the indices of an array; and the value a row holds under a key, null
  when it holds none (4.3, step 3).
\<close>

definition row_keys :: "json \<Rightarrow> string list" where
  "row_keys row =
     (case row of
        JObj ms \<Rightarrow> map fst ms
      | JArr xs \<Rightarrow> map show_nat [0..<length xs]
      | _ \<Rightarrow> [])"

definition row_cell :: "json \<Rightarrow> string \<Rightarrow> cell" where
  "row_cell row k =
     (case row of
        JObj ms \<Rightarrow> (case map_of ms k of None \<Rightarrow> CNull | Some v \<Rightarrow> cell_of_json v)
      | JArr xs \<Rightarrow>
          (if k \<noteq> [] \<and> list_all is_digit k \<and> index_of k 0 < length xs
           then cell_of_json (xs ! index_of k 0) else CNull)
      | _ \<Rightarrow> CNull)"

text \<open>
  Modelled from the spec: the inferred column set (4.3, step 1): the union of the
  keys of all rows, in the order in which they are first seen.
\<close>

definition inferred_keys :: "json list \<Rightarrow> string list" where
  "inferred_keys rows =
     foldl (\<lambda>seen k. if k \<in> set seen then seen else seen @ [k]) [] (concat (map row_keys rows))"

text \<open>
  Modelled from the spec: a column whose type is inferred (4.3, steps 2 and 3), the
  values of a string column being rendered as text.
\<close>

definition inferred_column ::
  "(string \<Rightarrow> string \<Rightarrow> int option) \<Rightarrow> string \<Rightarrow> cell list \<Rightarrow> Column" where
  "inferred_column tp name cells =
     \<lparr>col_name = name, col_labels = [], col_type = infer_type cells,
      col_values = (if infer_type cells = FieldTypeString
                    then map (coerce tp ''string'' []) cells else cells)\<rparr>"

text \<open>
  Modelled from the spec: the column of a ColumnSpec (4.2, 4.3): its name is the
  alias, or the selector without one; a declared type wins and converts every value;
  without a declared type the column is inferred.
\<close>

definition declared_column ::
  "(string \<Rightarrow> string \<Rightarrow> int option) \<Rightarrow> json list \<Rightarrow> ColumnSelector \<Rightarrow> Column" where
  "declared_column tp rows c =
     (if is_auto (Type c)
      then inferred_column tp (column_name c) (map (\<lambda>row. row_cell row (column_name c)) rows)
      else \<lparr>col_name = column_name c, col_labels = [], col_type = field_type (Type c),
            col_values = map (\<lambda>row. coerce tp (Type c) (TimeFormat c)
                                      (row_cell row (column_name c))) rows\<rparr>)"

text \<open>
  Modelled from the spec: a cell that holds a nested array or object where a declared
  type expects a scalar (4.3, step 4).
\<close>

definition nested_cell :: "json list \<Rightarrow> ColumnSelector \<Rightarrow> bool" where
  "nested_cell rows c =
     (\<not> is_auto (Type c)
      \<and> list_ex (\<lambda>row. case row_cell row (column_name c) of CJSON v \<Rightarrow> True | _ \<Rightarrow> False) rows)"

text \<open>
  Modelled from the spec: an override (4.2, last paragraph): the column it names is
  given the declared type and its values are converted again, in place; the other
  columns, the order and the row count stay.
\<close>

definition apply_override ::
  "(string \<Rightarrow> string \<Rightarrow> int option) \<Rightarrow> Column list \<Rightarrow> ColumnSelector \<Rightarrow> Column list" where
  "apply_override tp cols ov =
     map (\<lambda>col. if col_name col = Selector ov \<and> \<not> is_auto (Type ov)
                then col\<lparr>col_type := field_type (Type ov),
                         col_values := map (coerce tp (Type ov) (TimeFormat ov)) (col_values col)\<rparr>
                else col) cols"

text \<open>
  Modelled from the spec: \<^verbatim>\<open>gframer.ToDataFrame\<close>, the frame assembler (4.3) with the
  conversions of 4.2: the columns are those of the ColumnSpecs, in their order, or
  the inferred ones; the overrides are applied to the built columns; the build fails
  on a nested cell under a declared type.
\<close>

definition spec_ToDataFrame ::
  "(string \<Rightarrow> string \<Rightarrow> int option) \<Rightarrow> json \<Rightarrow> gframer_FramerOptions \<Rightarrow> err + Frame option" where
  "spec_ToDataFrame tp out opts =
     (let rows = rows_of out;
          cols = (if g_Columns opts \<noteq> []
                  then map (declared_column tp rows) (g_Columns opts)
                  else map (\<lambda>k. inferred_column tp k (map (\<lambda>row. row_cell row k) rows))
                         (inferred_keys rows))
      in if list_ex (nested_cell rows) (g_Columns opts)
         then Inl (Err ''frame build error'')
         else Inr (Some \<lparr>frame_Name = g_FrameName opts,
                         frame_Columns = foldl (apply_override tp) cols (g_OverrideColumns opts)\<rparr>))"

subsection \<open>Time series\<close>

text \<open>
  \<^verbatim>\<open>Frame.TimeSeriesSchema\<close> of the plugin SDK: a frame with no time column or no
  numeric column is no time series; with both it is long when it has a string column
  and wide when it has none.
\<close>

definition TimeSeriesSchema_of :: "Frame \<Rightarrow> TimeSeriesType" where
  "TimeSeriesSchema_of f =
     (let cols = frame_Columns f
      in if filter (\<lambda>c. col_type c = FieldTypeTime) cols = []
            \<or> filter (\<lambda>c. col_type c = FieldTypeNumber) cols = []
         then TimeSeriesTypeNot
         else if filter (\<lambda>c. col_type c = FieldTypeString) cols = []
         then TimeSeriesTypeWide
         else TimeSeriesTypeLong)"

text \<open>
  Modelled from the spec: the reshaping from long to wide (4.5), which the SDK's
  \<^verbatim>\<open>data.LongToWide\<close> does: the first time column gives one row per distinct time, in
  ascending order; the string columns are the labels, and each numeric column gives
  one column per distinct combination of labels, holding the value of the row with
  that time and those labels, or null when there is none. It fails without a time
  column.
\<close>

definition series_of :: "Column list \<Rightarrow> nat \<Rightarrow> (string \<times> string) list" where
  "series_of labs r =
     map (\<lambda>c. (col_name c, (case col_values c ! r of CStr t \<Rightarrow> t | _ \<Rightarrow> []))) labs"

definition long_to_wide :: "Frame \<Rightarrow> err + Frame" where
  "long_to_wide f =
     (case filter (\<lambda>c. col_type c = FieldTypeTime) (frame_Columns f) of
        [] \<Rightarrow> Inl (Err ''no time column'')
      | tc # _ \<Rightarrow>
          (let idx = [0..<length (col_values tc)];
               labs = filter (\<lambda>c. col_type c = FieldTypeString) (frame_Columns f);
               vals = filter (\<lambda>c. col_type c = FieldTypeNumber) (frame_Columns f);
               times = sort (remdups (concat (map (\<lambda>c. case c of CTime i \<Rightarrow> [i] | _ \<Rightarrow> [])
                                                 (col_values tc))));
               series = remdups (map (series_of labs) idx);
               wide = (\<lambda>v s.
                 \<lparr>col_name = col_name v, col_labels = s, col_type = FieldTypeNumber,
                  col_values =
                    map (\<lambda>t. case filter (\<lambda>r. col_values tc ! r = CTime t \<and> series_of labs r = s) idx of
                               [] \<Rightarrow> CNull
                             | r # _ \<Rightarrow> col_values v ! r) times\<rparr>)
           in Inr \<lparr>frame_Name = frame_Name f,
                   frame_Columns =
                     tc\<lparr>col_values := map CTime times\<rparr>
                     # concat (map (\<lambda>v. map (wide v) series) vals)\<rparr>))"

subsection \<open>Dates\<close>

text \<open>
  The civil calendar: the day number of a date, counted from 1970-01-01, and the date
  of a day number, as year, month and day.
\<close>

definition days_from_civil :: "int \<Rightarrow> int \<Rightarrow> int \<Rightarrow> int" where
  "days_from_civil y m d =
     (let y' = (if m \<le> 2 then y - 1 else y);
          era = y' div 400;
          yoe = y' - era * 400;
          doy = (153 * (if m > 2 then m - 3 else m + 9) + 2) div 5 + d - 1;
          doe = yoe * 365 + yoe div 4 - yoe div 100 + doy
      in era * 146097 + doe - 719468)"

definition civil_from_days :: "int \<Rightarrow> int \<times> int \<times> int" where
  "civil_from_days z =
     (let z' = z + 719468;
          era = z' div 146097;
          doe = z' - era * 146097;
          yoe = (doe - doe div 1460 + doe div 36524 - doe div 146096) div 365;
          doy = doe - (365 * yoe + yoe div 4 - yoe div 100);
          mp = (5 * doy + 2) div 153;
          d = doy - (153 * mp + 2) div 5 + 1;
          m = (if mp < 10 then mp + 3 else mp - 9)
      in ((if m \<le> 2 then yoe + era * 400 + 1 else yoe + era * 400), m, d))"

text \<open>The date of a time in milliseconds since the epoch.\<close>

definition date_of :: "int \<Rightarrow> int \<times> int \<times> int" where
  "date_of ms = civil_from_days (ms div 86400000)"

text \<open>
  The time parser of the reference implementation: with no layout it reads
  \<^verbatim>\<open>YYYY-MM-DDTHH:MM:SSZ\<close>, with or without three digits of milliseconds; it knows no
  other layout.
\<close>

definition digits_at :: "string \<Rightarrow> nat \<Rightarrow> nat \<Rightarrow> int option" where
  "digits_at s i n =
     (let d = take n (drop i s)
      in if length d = n \<and> list_all is_digit d then Some (digits_value d 0) else None)"

definition parse_time0 :: "string \<Rightarrow> string \<Rightarrow> int option" where
  "parse_time0 layout s =
     (case (digits_at s 0 4, digits_at s 5 2, digits_at s 8 2,
            digits_at s 11 2, digits_at s 14 2, digits_at s 17 2) of
        (Some y, Some m, Some d, Some h, Some mi, Some se) \<Rightarrow>
          (if layout = [] \<and> take 1 (drop 4 s) = ''-'' \<and> take 1 (drop 7 s) = ''-''
              \<and> take 1 (drop 10 s) = ''T'' \<and> take 1 (drop 13 s) = '':''
              \<and> take 1 (drop 16 s) = '':''
           then (if drop 19 s = ''Z''
                 then Some ((days_from_civil y m d * 86400 + h * 3600 + mi * 60 + se) * 1000)
                 else (case digits_at s 20 3 of
                         Some f \<Rightarrow>
                           (if take 1 (drop 19 s) = ''.'' \<and> drop 23 s = ''Z''
                            then Some ((days_from_civil y m d * 86400 + h * 3600 + mi * 60 + se)
                                       * 1000 + f)
                            else None)
                       | None \<Rightarrow> None))
           else None)
      | _ \<Rightarrow> None)"

text \<open>
  The reference implementation with the frames of the spec: the libraries of \<open>env0\<close>,
  the assembler \<open>spec_ToDataFrame\<close> and the two frame operations above.
\<close>

definition env_spec :: "(string list, Frame) env" where
  "env_spec =
     \<lparr>gjson_Valid = (\<lambda>s. parse s \<noteq> None),
      gjson_Parse = parse0,
      gjson_Get = get0,
      gjson_Array = array0,
      gjson_arrayOrMap = arrayOrMap0,
      jsonata_Compile = compile0,
      jsonata_Eval = eval0,
      json_Unmarshal = unmarshal0,
      json_Marshal = (\<lambda>v. Inr (render v)),
      gframer_ToDataFrame = spec_ToDataFrame parse_time0,
      TimeSeriesSchema_Type = TimeSeriesSchema_of,
      data_LongToWide = long_to_wide,
      QueryJSONUsingSQLite3 = (\<lambda>s q r. Inl (Err ''sqlite3 is not available''))\<rparr>"

definition typed_column :: "string \<Rightarrow> string \<Rightarrow> string \<Rightarrow> ColumnSelector" where
  "typed_column sel al ty = \<lparr>Selector = sel, Alias = al, Type = ty, TimeFormat = []\<rparr>"

section \<open>The parts of \<open>ToFrames\<close>\<close>

text \<open>
  The text \<open>ToFrames\<close> classifies and \<open>ToFrame\<close> assembles, when validation, root
  resolution and column projection have all succeeded under the gjson framer.
\<close>

definition resolved_text :: "('e, 'f) env \<Rightarrow> string \<Rightarrow> FramerOptions \<Rightarrow> string option" where
  "resolved_text env jsonString options =
     (case validateJson env jsonString of
        Some e \<Rightarrow> None
      | None \<Rightarrow>
          (if FramerType options = ''sqlite3'' then None
           else
             (case GetRootData env jsonString (RootSelector options) of
                Panic p \<Rightarrow> None
              | Return (_, Some e) \<Rightarrow> None
              | Return (outString0, None) \<Rightarrow>
                  (case getColumnValuesFromResponseString env outString0 (Columns options) of
                     (_, Some e) \<Rightarrow> None
                   | (outString, None) \<Rightarrow> Some outString))))"

text \<open>
  The raw texts of the rows that column projection goes through: the elements of an
  array, an object as one row, and none for any other text.
\<close>

definition input_rows :: "('e, 'f) env \<Rightarrow> string \<Rightarrow> string list" where
  "input_rows env responseString =
     (let result = gjson_Parse env responseString
      in if IsArray result then map Raw (gjson_Array env result)
         else if IsObject result then [Raw result]
         else [])"

text \<open>What one pass of the loop over the inner arrays does with the raw text of one.\<close>

definition inner_frame :: "('e, 'f) env \<Rightarrow> FramerOptions \<Rightarrow> string \<Rightarrow> err + 'f option" where
  "inner_frame env options raw =
     (case getFrameFromResponseString env raw options of
        Inl e \<Rightarrow> Inl e
      | Inr None \<Rightarrow> Inr None
      | Inr (Some f) \<Rightarrow>
          (case reshape env options f of Inl e \<Rightarrow> Inl e | Inr w \<Rightarrow> Inr (Some w)))"

section \<open>Properties\<close>

subsection \<open>Go maps\<close>

lemma map_of_map_store: "map_of (map_store k v m) = (map_of m)(k \<mapsto> v)"
  by (induction m) (auto simp: fun_upd_twist)

lemma keys_map_store: "fst ` set (map_store k v m) = insert k (fst ` set m)"
proof (induction m)
  case Nil
  then show ?case by simp
next
  case (Cons p m)
  obtain k' v' where p: "p = (k', v')" by (cases p)
  show ?case using Cons.IH p
    by (cases "k = k'"; cases "k < k'") (simp_all add: insert_commute)
qed


lemma find_app:
  "find P (xs @ ys) = (case find P xs of None \<Rightarrow> find P ys | Some x \<Rightarrow> Some x)"
  by (induction xs) auto

lemma fold_store_lookup:
  "map_of (foldl (\<lambda>oi c. map_store (kf c) (vf c) oi) acc cs) n =
     (case find (\<lambda>c. kf c = n) (rev cs) of None \<Rightarrow> map_of acc n | Some c \<Rightarrow> Some (vf c))"
  by (induction cs arbitrary: acc)
     (simp_all add: find_app map_of_map_store split: option.splits)

lemma fold_store_keys:
  "fst ` set (foldl (\<lambda>oi c. map_store (kf c) (vf c) oi) acc cs) = fst ` set acc \<union> kf ` set cs"
  by (induction cs arbitrary: acc) (auto simp: keys_map_store)


lemma project_row_lookup:
  "map_of (project_row env raw columns) n =
     map_option (\<lambda>c. Value_of env (gjson_Get env raw (Selector c)))
       (find (\<lambda>c. column_name c = n) (rev columns))"
  unfolding project_row_def convertFieldValueType_def
  by (simp add: fold_store_lookup split: option.splits)

lemma project_row_keys:
  "fst ` set (project_row env raw columns) = column_name ` set columns"
  unfolding project_row_def by (simp add: fold_store_keys)


lemma find_distinct:
  "distinct (map f xs) \<Longrightarrow> x \<in> set xs \<Longrightarrow> find (\<lambda>y. f y = f x) xs = Some x"
  by (induction xs) (auto simp: image_iff)

lemma project_row_lookup_distinct:
  assumes "c \<in> set columns" and "distinct (map column_name columns)"
  shows "map_of (project_row env raw columns) (column_name c) =
           Some (Value_of env (gjson_Get env raw (Selector c)))"
proof -
  from assms have "find (\<lambda>y. column_name y = column_name c) (rev columns) = Some c"
    by (intro find_distinct) (simp_all add: rev_map [symmetric])
  then show ?thesis by (simp add: project_row_lookup)
qed

lemma projected_rows_input_rows:
  "projected_rows env s columns = map (\<lambda>raw. project_row env raw columns) (input_rows env s)"
  by (simp add: projected_rows_def input_rows_def Let_def comp_def)


lemma TrimSpace_brace: "TrimSpace ''{'' \<noteq> []" "TrimSpace ''{}'' \<noteq> []" "TrimSpace ''[]'' \<noteq> []"
  by code_simp+

subsection \<open>The loop over the inner arrays\<close>

lemma frames_loop_Cons:
  "frames_loop env options frames (v # vs) =
     (case inner_frame env options (Raw v) of
        Inl e \<Rightarrow> (frames, Some e)
      | Inr None \<Rightarrow> frames_loop env options frames vs
      | Inr (Some w) \<Rightarrow> frames_loop env options (frames @ [Some w]) vs)"
  by (simp add: inner_frame_def add_frame_def split: sum.splits option.splits)

lemma frames_loop_built:
  "list_all2 (\<lambda>v f. inner_frame env options (Raw v) = Inr f) vs fs \<Longrightarrow>
   frames_loop env options frames (vs @ rest) =
     frames_loop env options (frames @ filter (\<lambda>f. f \<noteq> None) fs) rest"
proof (induction vs fs arbitrary: frames rule: list_all2_induct)
  case Nil
  then show ?case by simp
next
  case (Cons v vs f fs)
  show ?case
  proof (cases f)
    case None
    with Cons show ?thesis by (simp add: frames_loop_Cons del: frames_loop.simps)
  next
    case (Some w)
    with Cons show ?thesis by (simp add: frames_loop_Cons del: frames_loop.simps)
  qed
qed

lemma frames_loop_all_built:
  assumes "list_all2 (\<lambda>v f. inner_frame env options (Raw v) = Inr f) vs fs"
  shows "frames_loop env options frames vs = (frames @ filter (\<lambda>f. f \<noteq> None) fs, None)"
  using frames_loop_built [OF assms, of frames "[]"] by simp

lemma frames_loop_fails:
  assumes "list_all2 (\<lambda>v f. inner_frame env options (Raw v) = Inr f) pre fs"
    and "inner_frame env options (Raw v) = Inl e"
  shows "frames_loop env options frames (pre @ v # post) =
           (frames @ filter (\<lambda>f. f \<noteq> None) fs, Some e)"
  using frames_loop_built [OF assms(1), of frames "v # post"] assms(2)
  by (simp add: frames_loop_Cons del: frames_loop.simps)

lemma ToFrames_resolved:
  assumes "resolved_text env jsonString options = Some out"
  shows "ToFrames env jsonString options =
     (if IsArray (gjson_Parse env out) then
        (if nonArrayItemsFound (gjson_Array env (gjson_Parse env out)) then
           (case getFrameFromResponseString env out options of
              Inl e \<Rightarrow> Return ([], Some e)
            | Inr frame \<Rightarrow> Return ([frame], None))
         else Return (frames_loop env options [] (gjson_Array env (gjson_Parse env out))))
      else
        (case getFrameFromResponseString env out options of
           Inl e \<Rightarrow> Return ([], Some e)
         | Inr frame \<Rightarrow> Return (add_frame env options [] frame)))"
  using assms
  by (auto simp: resolved_text_def ToFrames_def Let_def
           split: option.splits if_splits outcome.splits prod.splits)

lemma ToFrame_resolved:
  assumes "resolved_text env jsonString options = Some out"
  shows "ToFrame env jsonString options =
     (case getFrameFromResponseString env out options of
        Inl e \<Rightarrow> Return (None, Some e)
      | Inr frame \<Rightarrow> Return (frame, None))"
  using assms
  by (auto simp: resolved_text_def ToFrame_def Let_def
           split: option.splits if_splits outcome.splits prod.splits)

subsection \<open>The sqlite3 framer\<close>

text \<open>
  C10. For a text that passes validation (not blank, valid JSON), \<open>ToFrames\<close> with
  the framer type \<^verbatim>\<open>sqlite3\<close> returns the error "multi frame support not
  implemented for sqlite3 parser" and no frame, whatever the other options are,
  while \<open>ToFrame\<close> with the same options runs the SQLite3 query and builds a frame
  from its answer.
\<close>

theorem ToFrames_sqlite3_not_implemented:
  assumes "TrimSpace jsonString \<noteq> []"
    and "gjson_Valid env jsonString"
    and "FramerType options = ''sqlite3''"
  shows "ToFrames env jsonString options =
           Return ([], Some (Err ''multi frame support not implemented for sqlite3 parser''))
         \<and> ToFrame env jsonString options =
           (case QueryJSONUsingSQLite3 env jsonString (SQLite3Query options) (RootSelector options) of
              Inl e \<Rightarrow> Return (None, Some e)
            | Inr outString \<Rightarrow>
                (case getFrameFromResponseString env outString options of
                   Inl e \<Rightarrow> Return (None, Some e)
                 | Inr frame \<Rightarrow> Return (frame, None)))"
  using assms by (simp add: ToFrames_def ToFrame_def validateJson_def)

theorem ToFrames_sqlite3_not_implemented_witness:
  "TrimSpace ''{}'' \<noteq> [] \<and> gjson_Valid env0 ''{}''
   \<and> FramerType (options0\<lparr>FramerType := ''sqlite3''\<rparr>) = ''sqlite3''
   \<and> ToFrames env0 ''{}'' (options0\<lparr>FramerType := ''sqlite3''\<rparr>) =
         Return ([], Some (Err ''multi frame support not implemented for sqlite3 parser''))"
proof -
  have h1: "TrimSpace ''{}'' \<noteq> []" by code_simp
  have h2: "gjson_Valid env0 ''{}''" by code_simp
  have h3: "FramerType (options0\<lparr>FramerType := ''sqlite3''\<rparr>) = ''sqlite3''" by simp
  from ToFrames_sqlite3_not_implemented [OF h1 h2 h3] h1 h2 h3 show ?thesis by simp
qed

subsection \<open>An inner frame that fails\<close>

text \<open>
  C1, as the code has it. In multi-frame mode (the resolved and projected root is an
  array with no element that is not an array), when the inner arrays before \<open>v\<close> are
  built and the frame of \<open>v\<close> fails, in assembly or in reshaping, with the error
  \<open>e\<close>, the call returns \<open>e\<close> together with the frames built before: the slice
  is returned as it stands, and is empty only when no frame was built before the
  failure.
\<close>

theorem ToFrames_inner_failure:
  assumes "resolved_text env jsonString options = Some out"
    and "IsArray (gjson_Parse env out)"
    and "\<not> nonArrayItemsFound (gjson_Array env (gjson_Parse env out))"
    and "gjson_Array env (gjson_Parse env out) = pre @ v # post"
    and "list_all2 (\<lambda>v f. inner_frame env options (Raw v) = Inr f) pre fs"
    and "inner_frame env options (Raw v) = Inl e"
  shows "ToFrames env jsonString options = Return (filter (\<lambda>f. f \<noteq> None) fs, Some e)"
  using assms(2-4) frames_loop_fails [OF assms(5,6), of "[]" post]
  by (simp add: ToFrames_resolved [OF assms(1)])

text \<open>
  The root \<^verbatim>\<open>[[1],[1e999]]\<close> is an array of arrays and valid JSON; a frame is built
  from \<^verbatim>\<open>[1]\<close>, and \<^verbatim>\<open>[1e999]\<close> fails in \<^verbatim>\<open>json.Unmarshal\<close>, as 1e999 is no
  \<^verbatim>\<open>float64\<close>: the call returns the error and the first frame.
\<close>

theorem ToFrames_partial_frames_counterexample:
  "validateJson env0 ''[[1],[1e999]]'' = None
   \<and> IsArray (gjson_Parse env0 ''[[1],[1e999]]'')
   \<and> \<not> nonArrayItemsFound (gjson_Array env0 (gjson_Parse env0 ''[[1],[1e999]]''))
   \<and> ToFrames env0 ''[[1],[1e999]]'' options0 =
     Return ([Some \<lparr>f_name = [], f_value = JArr [JNum ''1''], f_shape = TimeSeriesTypeNot\<rparr>],
             Some (Err (''error while un-marshaling response. ''
                        @ ''json: cannot unmarshal number 1e999 into Go value of type float64'')))"
  by code_simp

theorem ToFrames_inner_failure_witness:
  "resolved_text env0 ''[[1],[1e999]]'' options0 = Some ''[[1],[1e999]]''
   \<and> IsArray (gjson_Parse env0 ''[[1],[1e999]]'')
   \<and> inner_frame env0 options0 ''[1e999]'' =
       Inl (Err (''error while un-marshaling response. ''
                 @ ''json: cannot unmarshal number 1e999 into Go value of type float64''))
   \<and> ToFrames env0 ''[[1],[1e999]]'' options0 =
       Return ([Some \<lparr>f_name = [], f_value = JArr [JNum ''1''], f_shape = TimeSeriesTypeNot\<rparr>],
               Some (Err (''error while un-marshaling response. ''
                          @ ''json: cannot unmarshal number 1e999 into Go value of type float64'')))"
proof -
  let ?t = "''[[1],[1e999]]''"
  let ?e = "Err (''error while un-marshaling response. ''
                 @ ''json: cannot unmarshal number 1e999 into Go value of type float64'')"
  let ?f = "\<lparr>f_name = [], f_value = JArr [JNum ''1''], f_shape = TimeSeriesTypeNot\<rparr>"
  have h1: "resolved_text env0 ?t options0 = Some ?t" by code_simp
  have h2: "IsArray (gjson_Parse env0 ?t)" by code_simp
  have h3: "\<not> nonArrayItemsFound (gjson_Array env0 (gjson_Parse env0 ?t))" by code_simp
  have h4: "gjson_Array env0 (gjson_Parse env0 ?t) =
              [result_of (JArr [JNum ''1''])] @ result_of (JArr [JNum ''1e999'']) # []" by code_simp
  have h5: "list_all2 (\<lambda>v f. inner_frame env0 options0 (Raw v) = Inr f)
              [result_of (JArr [JNum ''1''])] [Some ?f]" by code_simp
  have h6: "inner_frame env0 options0 (Raw (result_of (JArr [JNum ''1e999'']))) = Inl ?e"
    by code_simp
  have h7: "Raw (result_of (JArr [JNum ''1e999''])) = ''[1e999]''" by code_simp
  from ToFrames_inner_failure [OF h1 h2 h3 h4 h5 h6] h1 h2 h6 h7 show ?thesis by simp
qed

subsection \<open>One frame or many\<close>

text \<open>
  C2, as the code has it. The classification is applied to the text that root
  resolution and column projection leave (with no columns declared, the resolved root
  itself). An array without a non-array element gives one frame per inner array, each
  assembled and reshaped on its own, when each inner array gives a frame; an array
  with a non-array element gives the one frame assembled from the whole text; a text
  that is not an array gives one frame.
\<close>

theorem ToFrames_classification:
  assumes "resolved_text env jsonString options = Some out"
  shows "(IsArray (gjson_Parse env out)
          \<and> \<not> nonArrayItemsFound (gjson_Array env (gjson_Parse env out))
          \<and> list_all2 (\<lambda>v f. inner_frame env options (Raw v) = Inr (Some f))
                (gjson_Array env (gjson_Parse env out)) fs
          \<longrightarrow> ToFrames env jsonString options = Return (map Some fs, None)
              \<and> length fs = length (gjson_Array env (gjson_Parse env out)))
       \<and> (IsArray (gjson_Parse env out)
          \<and> nonArrayItemsFound (gjson_Array env (gjson_Parse env out))
          \<and> getFrameFromResponseString env out options = Inr frame
          \<longrightarrow> ToFrames env jsonString options = Return ([frame], None))
       \<and> (\<not> IsArray (gjson_Parse env out)
          \<and> inner_frame env options out = Inr (Some f)
          \<longrightarrow> ToFrames env jsonString options = Return ([Some f], None))
       \<and> (Columns options = [] \<longrightarrow>
            GetRootData env jsonString (RootSelector options) = Return (out, None))"
proof (intro conjI impI)
  assume a: "IsArray (gjson_Parse env out)
          \<and> \<not> nonArrayItemsFound (gjson_Array env (gjson_Parse env out))
          \<and> list_all2 (\<lambda>v f. inner_frame env options (Raw v) = Inr (Some f))
                (gjson_Array env (gjson_Parse env out)) fs"
  then have "list_all2 (\<lambda>v f. inner_frame env options (Raw v) = Inr f)
                (gjson_Array env (gjson_Parse env out)) (map Some fs)"
    by (simp add: list_all2_map2)
  from frames_loop_all_built [OF this, of "[]"] a
  show "ToFrames env jsonString options = Return (map Some fs, None)"
    by (simp add: ToFrames_resolved [OF assms] filter_map comp_def)
  from a show "length fs = length (gjson_Array env (gjson_Parse env out))"
    by (auto dest: list_all2_lengthD)
next
  assume "IsArray (gjson_Parse env out)
          \<and> nonArrayItemsFound (gjson_Array env (gjson_Parse env out))
          \<and> getFrameFromResponseString env out options = Inr frame"
  then show "ToFrames env jsonString options = Return ([frame], None)"
    by (simp add: ToFrames_resolved [OF assms])
next
  assume "\<not> IsArray (gjson_Parse env out) \<and> inner_frame env options out = Inr (Some f)"
  then show "ToFrames env jsonString options = Return ([Some f], None)"
    by (auto simp: ToFrames_resolved [OF assms] inner_frame_def add_frame_def
             split: sum.splits option.splits)
next
  assume "Columns options = []"
  with assms show "GetRootData env jsonString (RootSelector options) = Return (out, None)"
    by (auto simp: resolved_text_def getColumnValuesFromResponseString_def
             split: option.splits if_splits outcome.splits prod.splits)
qed

text \<open>
  The root \<^verbatim>\<open>[[{"a":1}],[{"a":2}]]\<close> is an array of two arrays. With the column
  \<^verbatim>\<open>a\<close> declared, the projection runs on the root first and makes one row of each
  inner array, so one frame of two rows comes back, not two frames.
\<close>

theorem ToFrames_projection_first_counterexample:
  "GetRootData env0 ''[[{\"a\":1}],[{\"a\":2}]]'' [] = Return (''[[{\"a\":1}],[{\"a\":2}]]'', None)
   \<and> IsArray (gjson_Parse env0 ''[[{\"a\":1}],[{\"a\":2}]]'')
   \<and> \<not> nonArrayItemsFound (gjson_Array env0 (gjson_Parse env0 ''[[{\"a\":1}],[{\"a\":2}]]''))
   \<and> ToFrames env0 ''[[{\"a\":1}],[{\"a\":2}]]'' (options0\<lparr>Columns := [column ''a'' []]\<rparr>) =
       Return ([Some \<lparr>f_name = [],
                      f_value = JArr [JObj [(''a'', JNull)], JObj [(''a'', JNull)]],
                      f_shape = TimeSeriesTypeNot\<rparr>], None)"
  by code_simp

theorem ToFrames_classification_witness:
  "ToFrames env0 ''[[{\"a\":1}],[{\"a\":2}]]'' options0 =
     Return ([Some \<lparr>f_name = [], f_value = JArr [JObj [(''a'', JNum ''1'')]], f_shape = TimeSeriesTypeNot\<rparr>,
              Some \<lparr>f_name = [], f_value = JArr [JObj [(''a'', JNum ''2'')]], f_shape = TimeSeriesTypeNot\<rparr>],
             None)
   \<and> ToFrames env0 ''[\"x\",\"y\"]'' options0 =
     Return ([Some \<lparr>f_name = [], f_value = JArr [JStr ''x'', JStr ''y''], f_shape = TimeSeriesTypeNot\<rparr>], None)
   \<and> ToFrames env0 ''{\"a\":1}'' options0 =
     Return ([Some \<lparr>f_name = [], f_value = JObj [(''a'', JNum ''1'')], f_shape = TimeSeriesTypeNot\<rparr>], None)"
proof -
  let ?t = "''[[{\"a\":1}],[{\"a\":2}]]''"
  let ?f1 = "\<lparr>f_name = [], f_value = JArr [JObj [(''a'', JNum ''1'')]], f_shape = TimeSeriesTypeNot\<rparr>"
  let ?f2 = "\<lparr>f_name = [], f_value = JArr [JObj [(''a'', JNum ''2'')]], f_shape = TimeSeriesTypeNot\<rparr>"
  let ?fx = "\<lparr>f_name = [], f_value = JArr [JStr ''x'', JStr ''y''], f_shape = TimeSeriesTypeNot\<rparr>"
  let ?fo = "\<lparr>f_name = [], f_value = JObj [(''a'', JNum ''1'')], f_shape = TimeSeriesTypeNot\<rparr>"
  have r1: "resolved_text env0 ?t options0 = Some ?t" by code_simp
  have a1: "IsArray (gjson_Parse env0 ?t)
          \<and> \<not> nonArrayItemsFound (gjson_Array env0 (gjson_Parse env0 ?t))
          \<and> list_all2 (\<lambda>v f. inner_frame env0 options0 (Raw v) = Inr (Some f))
                (gjson_Array env0 (gjson_Parse env0 ?t)) [?f1, ?f2]" by code_simp
  have r2: "resolved_text env0 ''[\"x\",\"y\"]'' options0 = Some ''[\"x\",\"y\"]''" by code_simp
  have a2: "IsArray (gjson_Parse env0 ''[\"x\",\"y\"]'')
          \<and> nonArrayItemsFound (gjson_Array env0 (gjson_Parse env0 ''[\"x\",\"y\"]''))
          \<and> getFrameFromResponseString env0 ''[\"x\",\"y\"]'' options0 = Inr (Some ?fx)" by code_simp
  have r3: "resolved_text env0 ''{\"a\":1}'' options0 = Some ''{\"a\":1}''" by code_simp
  have a3: "\<not> IsArray (gjson_Parse env0 ''{\"a\":1}'')
          \<and> inner_frame env0 options0 ''{\"a\":1}'' = Inr (Some ?fo)" by code_simp
  from ToFrames_classification [OF r1, of "[?f1, ?f2]"] a1
  have c1: "ToFrames env0 ?t options0 = Return (map Some [?f1, ?f2], None)" by blast
  from ToFrames_classification [OF r2, of _ "Some ?fx"] a2
  have c2: "ToFrames env0 ''[\"x\",\"y\"]'' options0 = Return ([Some ?fx], None)" by blast
  from ToFrames_classification [OF r3, of _ _ ?fo] a3
  have c3: "ToFrames env0 ''{\"a\":1}'' options0 = Return ([Some ?fo], None)" by blast
  from c1 c2 c3 show ?thesis by simp
qed

subsection \<open>Long to wide\<close>




subsection \<open>Root resolution\<close>

text \<open>
  C4. When the root selector is not empty, gjson finds nothing at it and JSONata does
  not compile it, \<open>GetRootData\<close> panics in \<^verbatim>\<open>jsonata.MustCompile\<close>: the branch that
  returns \<open>ErrInvalidRootSelector\<close> tests for a nil expression, which \<^verbatim>\<open>MustCompile\<close>
  never returns. \<open>ToFrame\<close> and \<open>ToFrames\<close> panic with it.
\<close>

theorem GetRootData_compile_failure:
  assumes "rootSelector \<noteq> []"
    and "\<not> Exists (gjson_Get env jsonString rootSelector)"
    and "jsonata_Compile env rootSelector = Inl msg"
  shows "GetRootData env jsonString rootSelector =
           Panic (''could not compile '' @ rootSelector @ '': '' @ msg)"
  using assms by (simp add: GetRootData_def jsonata_MustCompile_def)

theorem GetRootData_compile_failure_witness:
  "\<not> Exists (gjson_Get env0 ''{\"a\":1}'' ''('')
   \<and> jsonata_Compile env0 ''('' = Inl ''syntax error''
   \<and> GetRootData env0 ''{\"a\":1}'' ''('' = Panic ''could not compile (: syntax error''
   \<and> ToFrames env0 ''{\"a\":1}'' (options0\<lparr>RootSelector := ''(''\<rparr>) =
       Panic ''could not compile (: syntax error''
   \<and> ToFrame env0 ''{\"a\":1}'' (options0\<lparr>RootSelector := ''(''\<rparr>) =
       Panic ''could not compile (: syntax error''"
proof -
  have h1: "''('' \<noteq> []" by simp
  have h2: "\<not> Exists (gjson_Get env0 ''{\"a\":1}'' ''('')" by code_simp
  have h3: "jsonata_Compile env0 ''('' = Inl ''syntax error''" by code_simp
  have g: "GetRootData env0 ''{\"a\":1}'' ''('' = Panic ''could not compile (: syntax error''"
    using GetRootData_compile_failure [OF h1 h2 h3] by simp
  have v: "validateJson env0 ''{\"a\":1}'' = None" by code_simp
  have f: "FramerType (options0\<lparr>RootSelector := ''(''\<rparr>) \<noteq> ''sqlite3''"
    by (simp add: options0_def)
  from g v f h2 h3 show ?thesis by (simp add: ToFrames_def ToFrame_def)
qed

text \<open>
  C7. With an empty root selector \<open>GetRootData\<close> returns the text as it is. When gjson
  finds a value at the selector, \<open>GetRootData\<close> returns \<^verbatim>\<open>Result.String\<close> of it and
  JSONata is not called: that is the raw JSON text for an array or an object, but the
  content without its quotes for a string, and the empty text for null.
\<close>

theorem GetRootData_literal_path:
  "GetRootData env jsonString [] = Return (jsonString, None)
   \<and> (rootSelector \<noteq> [] \<and> Exists (gjson_Get env jsonString rootSelector) \<longrightarrow>
        GetRootData env jsonString rootSelector =
          Return (String_of (gjson_Get env jsonString rootSelector), None))
   \<and> (rType r = JSON \<longrightarrow> String_of r = Raw r)
   \<and> (rType r = String \<longrightarrow> String_of r = Str r)
   \<and> (rType r = Null \<longrightarrow> String_of r = [])"
proof -
  have "GetRootData env jsonString [] = Return (jsonString, None)"
    by (simp add: GetRootData_def)
  moreover have "rootSelector \<noteq> [] \<and> Exists (gjson_Get env jsonString rootSelector) \<longrightarrow>
        GetRootData env jsonString rootSelector =
          Return (String_of (gjson_Get env jsonString rootSelector), None)"
    by (simp add: GetRootData_def Let_def)
  moreover have "rType r = JSON \<longrightarrow> String_of r = Raw r"
    and "rType r = String \<longrightarrow> String_of r = Str r"
    and "rType r = Null \<longrightarrow> String_of r = []"
    by (simp_all add: String_of_def)
  ultimately show ?thesis by blast
qed

theorem GetRootData_literal_path_witness:
  "GetRootData env0 ''{\"a\":\"x\"}'' [] = Return (''{\"a\":\"x\"}'', None)
   \<and> Exists (gjson_Get env0 ''{\"a\":\"x\"}'' ''a'')
   \<and> Raw (gjson_Get env0 ''{\"a\":\"x\"}'' ''a'') = ''\"x\"''
   \<and> GetRootData env0 ''{\"a\":\"x\"}'' ''a'' = Return (''x'', None)
   \<and> \<not> gjson_Valid env0 ''x''
   \<and> GetRootData env0 ''{\"a\":{\"b\":1}}'' ''a'' = Return (''{\"b\":1}'', None)
   \<and> GetRootData env0 ''{\"a\":null}'' ''a'' = Return ([], None)"
proof -
  have e1: "''a'' \<noteq> [] \<and> Exists (gjson_Get env0 ''{\"a\":\"x\"}'' ''a'')" by code_simp
  have s1: "String_of (gjson_Get env0 ''{\"a\":\"x\"}'' ''a'') = ''x''" by code_simp
  have e2: "''a'' \<noteq> [] \<and> Exists (gjson_Get env0 ''{\"a\":{\"b\":1}}'' ''a'')" by code_simp
  have s2: "String_of (gjson_Get env0 ''{\"a\":{\"b\":1}}'' ''a'') = ''{\"b\":1}''" by code_simp
  have e3: "''a'' \<noteq> [] \<and> Exists (gjson_Get env0 ''{\"a\":null}'' ''a'')" by code_simp
  have s3: "String_of (gjson_Get env0 ''{\"a\":null}'' ''a'') = []" by code_simp
  have r: "Raw (gjson_Get env0 ''{\"a\":\"x\"}'' ''a'') = ''\"x\"''" by code_simp
  have nv: "\<not> gjson_Valid env0 ''x''" by code_simp
  from GetRootData_literal_path [of env0 "''{\"a\":\"x\"}''" "''a''"] e1 s1
  have c1: "GetRootData env0 ''{\"a\":\"x\"}'' [] = Return (''{\"a\":\"x\"}'', None)"
    and c2: "GetRootData env0 ''{\"a\":\"x\"}'' ''a'' = Return (''x'', None)" by simp_all
  from GetRootData_literal_path [of env0 "''{\"a\":{\"b\":1}}''" "''a''"] e2 s2
  have c3: "GetRootData env0 ''{\"a\":{\"b\":1}}'' ''a'' = Return (''{\"b\":1}'', None)" by simp
  from GetRootData_literal_path [of env0 "''{\"a\":null}''" "''a''"] e3 s3
  have c4: "GetRootData env0 ''{\"a\":null}'' ''a'' = Return ([], None)" by simp
  from c1 c2 c3 c4 e1 r nv show ?thesis by simp
qed

subsection \<open>What a projected row holds\<close>

text \<open>
  C8. Column projection makes one output row of each input row: of each element of
  an array, in order, and of an object as the only row; the rows are what
  \<open>getColumnValuesFromResponseString\<close> hands to \<^verbatim>\<open>json.Marshal\<close>. In the row projected
  from the raw text of an input row, the name \<open>n\<close> holds the value gjson finds in that
  text at the selector of the last column declared under \<open>n\<close>; once the loop has gone
  through a column \<open>c\<close>, the row holds under the name of \<open>c\<close> the value found at the
  selector of \<open>c\<close>, the name of a column being its alias, or its selector when the
  alias is empty; a selector that leads nowhere gives null, not an error; when the
  declared names are distinct every column's value is found under its name in the
  finished row, so in the \<open>i\<close>-th output row the value found in the \<open>i\<close>-th element of
  the array; and a name that no column declares is not in the row.
\<close>

theorem projection_stores_under_alias:
  "map_of (project_row env raw columns) n =
     map_option (\<lambda>c. Value_of env (gjson_Get env raw (Selector c)))
       (find (\<lambda>c. column_name c = n) (rev columns))
   \<and> map_of (project_row env raw (pre @ [c])) (column_name c) =
       Some (Value_of env (gjson_Get env raw (Selector c)))
   \<and> column_name c = (if Alias c = [] then Selector c else Alias c)
   \<and> (\<not> Exists (gjson_Get env raw (Selector c)) \<longrightarrow>
        Value_of env (gjson_Get env raw (Selector c)) = JNull)
   \<and> (c \<in> set columns \<and> distinct (map column_name columns) \<longrightarrow>
        map_of (project_row env raw columns) (column_name c) =
          Some (Value_of env (gjson_Get env raw (Selector c))))
   \<and> (n \<notin> column_name ` set columns \<longrightarrow> map_of (project_row env raw columns) n = None)
   \<and> (IsArray (gjson_Parse env s) \<longrightarrow>
        projected_rows env s columns =
          map (\<lambda>v. project_row env (Raw v) columns) (gjson_Array env (gjson_Parse env s)))
   \<and> (\<not> IsArray (gjson_Parse env s) \<and> IsObject (gjson_Parse env s) \<longrightarrow>
        projected_rows env s columns = [project_row env (Raw (gjson_Parse env s)) columns])
   \<and> (\<not> IsArray (gjson_Parse env s) \<and> \<not> IsObject (gjson_Parse env s) \<longrightarrow>
        projected_rows env s columns = [])
   \<and> (IsArray (gjson_Parse env s) \<and> i < length (gjson_Array env (gjson_Parse env s))
        \<and> c \<in> set columns \<and> distinct (map column_name columns) \<longrightarrow>
        map_of (projected_rows env s columns ! i) (column_name c) =
          Some (Value_of env
                  (gjson_Get env (Raw (gjson_Array env (gjson_Parse env s) ! i)) (Selector c))))
   \<and> (columns \<noteq> [] \<longrightarrow>
        getColumnValuesFromResponseString env s columns =
          (case json_Marshal env (JArr (map JObj (projected_rows env s columns))) of
             Inl e \<Rightarrow> ([], Some e)
           | Inr a \<Rightarrow> (a, None)))"
proof (intro conjI impI)
  show "map_of (project_row env raw columns) n =
     map_option (\<lambda>c. Value_of env (gjson_Get env raw (Selector c)))
       (find (\<lambda>c. column_name c = n) (rev columns))"
    by (rule project_row_lookup)
  show "map_of (project_row env raw (pre @ [c])) (column_name c) =
       Some (Value_of env (gjson_Get env raw (Selector c)))"
    by (simp add: project_row_lookup)
  show "column_name c = (if Alias c = [] then Selector c else Alias c)"
    by (simp add: column_name_def)
next
  assume "\<not> Exists (gjson_Get env raw (Selector c))"
  then show "Value_of env (gjson_Get env raw (Selector c)) = JNull"
    by (simp add: Exists_def Value_of_def)
next
  assume "c \<in> set columns \<and> distinct (map column_name columns)"
  then show "map_of (project_row env raw columns) (column_name c) =
          Some (Value_of env (gjson_Get env raw (Selector c)))"
    by (simp add: project_row_lookup_distinct)
next
  assume "n \<notin> column_name ` set columns"
  then have "n \<notin> fst ` set (project_row env raw columns)"
    by (simp add: project_row_keys)
  then show "map_of (project_row env raw columns) n = None"
    by (simp add: map_of_eq_None_iff)
next
  assume "IsArray (gjson_Parse env s)"
  then show "projected_rows env s columns =
          map (\<lambda>v. project_row env (Raw v) columns) (gjson_Array env (gjson_Parse env s))"
    by (simp add: projected_rows_def Let_def)
next
  assume "\<not> IsArray (gjson_Parse env s) \<and> IsObject (gjson_Parse env s)"
  then show "projected_rows env s columns = [project_row env (Raw (gjson_Parse env s)) columns]"
    by (simp add: projected_rows_def Let_def)
next
  assume "\<not> IsArray (gjson_Parse env s) \<and> \<not> IsObject (gjson_Parse env s)"
  then show "projected_rows env s columns = []"
    by (simp add: projected_rows_def Let_def)
next
  assume "IsArray (gjson_Parse env s) \<and> i < length (gjson_Array env (gjson_Parse env s))
        \<and> c \<in> set columns \<and> distinct (map column_name columns)"
  then show "map_of (projected_rows env s columns ! i) (column_name c) =
          Some (Value_of env
                  (gjson_Get env (Raw (gjson_Array env (gjson_Parse env s) ! i)) (Selector c)))"
    by (simp add: projected_rows_def Let_def project_row_lookup_distinct)
next
  assume "columns \<noteq> []"
  then show "getColumnValuesFromResponseString env s columns =
          (case json_Marshal env (JArr (map JObj (projected_rows env s columns))) of
             Inl e \<Rightarrow> ([], Some e)
           | Inr a \<Rightarrow> (a, None))"
    by (simp add: getColumnValuesFromResponseString_def)
qed

text \<open>
  The rows of \<^verbatim>\<open>[{"username":"foo"},{"username":"bar","occupation":"student"}]\<close>
  under the columns \<^verbatim>\<open>username\<close>, as \<^verbatim>\<open>user-name\<close>, and \<^verbatim>\<open>occupation\<close>; and the
  example of the spec, \<^verbatim>\<open>{"username":"bar"}\<close> under the column \<^verbatim>\<open>username\<close> as
  \<^verbatim>\<open>user-name\<close>, with the frame that the assembler of the spec builds from it.
\<close>

theorem projection_stores_under_alias_witness:
  "projected_rows env0 ''[{\"username\":\"foo\"},{\"username\":\"bar\",\"occupation\":\"student\"}]''
     [column ''username'' ''user-name'', column ''occupation'' []] =
     [[(''occupation'', JNull), (''user-name'', JStr ''foo'')],
      [(''occupation'', JStr ''student''), (''user-name'', JStr ''bar'')]]
   \<and> getColumnValuesFromResponseString env0
       ''[{\"username\":\"foo\"},{\"username\":\"bar\",\"occupation\":\"student\"}]''
       [column ''username'' ''user-name'', column ''occupation'' []] =
     (''[{\"occupation\":null,\"user-name\":\"foo\"},{\"occupation\":\"student\",\"user-name\":\"bar\"}]'',
      None)
   \<and> map_of (project_row env0 ''{\"username\":\"bar\"}'' [column ''username'' ''user-name''])
       ''user-name'' = Some (JStr ''bar'')
   \<and> map_of (project_row env0 ''{\"username\":\"bar\"}'' [column ''username'' ''user-name''])
       ''username'' = None
   \<and> map_of (project_row env0 ''{\"username\":\"bar\"}'' [column ''occupation'' []])
       ''occupation'' = Some JNull
   \<and> ToFrame env_spec ''{\"username\":\"bar\"}''
       (options0\<lparr>Columns := [column ''username'' ''user-name'']\<rparr>) =
     Return (Some \<lparr>frame_Name = [],
                   frame_Columns = [\<lparr>col_name = ''user-name'', col_labels = [],
                                     col_type = FieldTypeString,
                                     col_values = [CStr ''bar'']\<rparr>]\<rparr>, None)"
proof -
  let ?s = "''[{\"username\":\"foo\"},{\"username\":\"bar\",\"occupation\":\"student\"}]''"
  let ?raw = "''{\"username\":\"bar\"}''"
  let ?c = "column ''username'' ''user-name''"
  let ?d = "column ''occupation'' []"
  have n: "column_name ?c = ''user-name''" "column_name ?d = ''occupation''" by code_simp+
  have arr: "IsArray (gjson_Parse env0 ?s)" by code_simp
  have rows: "map (\<lambda>v. project_row env0 (Raw v) [?c, ?d]) (gjson_Array env0 (gjson_Parse env0 ?s)) =
     [[(''occupation'', JNull), (''user-name'', JStr ''foo'')],
      [(''occupation'', JStr ''student''), (''user-name'', JStr ''bar'')]]" by code_simp
  have m: "json_Marshal env0 (JArr (map JObj
     [[(''occupation'', JNull), (''user-name'', JStr ''foo'')],
      [(''occupation'', JStr ''student''), (''user-name'', JStr ''bar'')]])) =
     Inr ''[{\"occupation\":null,\"user-name\":\"foo\"},{\"occupation\":\"student\",\"user-name\":\"bar\"}]''"
    by code_simp
  have v: "Value_of env0 (gjson_Get env0 ?raw (Selector ?c)) = JStr ''bar''" by code_simp
  have a1: "?c \<in> set [?c] \<and> distinct (map column_name [?c])" by simp
  have a2: "''username'' \<notin> column_name ` set [?c]" by (simp add: n)
  have a3: "\<not> Exists (gjson_Get env0 ?raw (Selector ?d))" by code_simp
  have a4: "?d \<in> set [?d] \<and> distinct (map column_name [?d])" by simp
  have t: "ToFrame env_spec ?raw (options0\<lparr>Columns := [?c]\<rparr>) =
     Return (Some \<lparr>frame_Name = [],
                   frame_Columns = [\<lparr>col_name = ''user-name'', col_labels = [],
                                     col_type = FieldTypeString,
                                     col_values = [CStr ''bar'']\<rparr>]\<rparr>, None)" by code_simp
  from projection_stores_under_alias
         [where env = env0 and s = ?s and columns = "[?c, ?d]" and c = ?c and n = "[]"] arr
  have r1: "projected_rows env0 ?s [?c, ?d] =
          map (\<lambda>v. project_row env0 (Raw v) [?c, ?d]) (gjson_Array env0 (gjson_Parse env0 ?s))"
    and r2: "getColumnValuesFromResponseString env0 ?s [?c, ?d] =
          (case json_Marshal env0 (JArr (map JObj (projected_rows env0 ?s [?c, ?d]))) of
             Inl e \<Rightarrow> ([], Some e)
           | Inr a \<Rightarrow> (a, None))"
    by simp_all
  from projection_stores_under_alias
         [where env = env0 and raw = ?raw and columns = "[?c]" and n = "''username''" and c = ?c]
       a1 a2
  have c1: "map_of (project_row env0 ?raw [?c]) ''user-name'' = Some (JStr ''bar'')"
    and c2: "map_of (project_row env0 ?raw [?c]) ''username'' = None"
    by (simp_all add: n v)
  from projection_stores_under_alias
         [where env = env0 and raw = ?raw and columns = "[?d]" and c = ?d] a3 a4
  have c3: "map_of (project_row env0 ?raw [?d]) ''occupation'' = Some JNull"
    by (simp add: n)
  from r1 r2 rows m c1 c2 c3 t show ?thesis by simp
qed

subsection \<open>Validation and the empty documents\<close>

lemma TrimLeft_space: "IsSpace r \<Longrightarrow> TrimLeft (r @ s) = TrimLeft s"
  unfolding IsSpace_def space_runes_def
  by (elim set_ConsD [elim_format] disjE; simp add: IsSpace_def space_runes_def)

lemma TrimSpace_spaces: "\<forall>r \<in> set rs. IsSpace r \<Longrightarrow> TrimSpace (concat rs) = []"
proof -
  assume "\<forall>r \<in> set rs. IsSpace r"
  then have "TrimLeft (concat rs) = []"
    by (induction rs) (simp_all add: TrimLeft_space)
  then show ?thesis by (simp add: TrimSpace_def)
qed

text \<open>
  C9, as the code has it. A text that \<^verbatim>\<open>strings.TrimSpace\<close> trims to nothing, as every
  text made of white space runes only and the empty text are, fails with "empty json
  received", and the text \<^verbatim>\<open>{\<close>, which gjson does not accept, with "invalid json
  response received", whatever the options are; neither call returns a frame. The
  texts \<^verbatim>\<open>[]\<close> and \<^verbatim>\<open>{}\<close> pass validation; under a framer type other than
  \<^verbatim>\<open>sqlite3\<close>, with an empty root selector and no columns, \<open>ToFrame\<close> returns what the
  assembler builds from them, \<open>ToFrames\<close> returns the one frame of \<^verbatim>\<open>{}\<close>, and for
  \<^verbatim>\<open>[]\<close>, an array without inner arrays, an empty collection and no error.
\<close>

theorem validation_of_texts:
  "(TrimSpace s = [] \<longrightarrow>
      ToFrames env s options = Return ([], Some (Err ''empty json received''))
      \<and> ToFrame env s options = Return (None, Some (Err ''empty json received'')))
   \<and> ((\<forall>r \<in> set rs. IsSpace r) \<longrightarrow>
      ToFrames env (concat rs) options = Return ([], Some (Err ''empty json received''))
      \<and> ToFrame env (concat rs) options = Return (None, Some (Err ''empty json received'')))
   \<and> (\<not> gjson_Valid env ''{'' \<longrightarrow>
      ToFrames env ''{'' options = Return ([], Some (Err ''invalid json response received''))
      \<and> ToFrame env ''{'' options = Return (None, Some (Err ''invalid json response received'')))
   \<and> (gjson_Valid env ''[]'' \<and> IsArray (gjson_Parse env ''[]'')
        \<and> gjson_Array env (gjson_Parse env ''[]'') = []
        \<and> FramerType options \<noteq> ''sqlite3'' \<and> RootSelector options = [] \<and> Columns options = []
      \<longrightarrow> ToFrames env ''[]'' options = Return ([], None)
          \<and> ToFrame env ''[]'' options =
              (case getFrameFromResponseString env ''[]'' options of
                 Inl e \<Rightarrow> Return (None, Some e)
               | Inr frame \<Rightarrow> Return (frame, None)))
   \<and> (gjson_Valid env ''{}'' \<and> \<not> IsArray (gjson_Parse env ''{}'')
        \<and> FramerType options \<noteq> ''sqlite3'' \<and> RootSelector options = [] \<and> Columns options = []
      \<longrightarrow> ToFrames env ''{}'' options =
              (case getFrameFromResponseString env ''{}'' options of
                 Inl e \<Rightarrow> Return ([], Some e)
               | Inr frame \<Rightarrow> Return (add_frame env options [] frame))
          \<and> ToFrame env ''{}'' options =
              (case getFrameFromResponseString env ''{}'' options of
                 Inl e \<Rightarrow> Return (None, Some e)
               | Inr frame \<Rightarrow> Return (frame, None)))"
proof (intro conjI impI)
  assume "TrimSpace s = []"
  then show "ToFrames env s options = Return ([], Some (Err ''empty json received''))"
    and "ToFrame env s options = Return (None, Some (Err ''empty json received''))"
    by (simp_all add: ToFrames_def ToFrame_def validateJson_def)
next
  assume "\<forall>r \<in> set rs. IsSpace r"
  then have "TrimSpace (concat rs) = []" by (rule TrimSpace_spaces)
  then show "ToFrames env (concat rs) options = Return ([], Some (Err ''empty json received''))"
    and "ToFrame env (concat rs) options = Return (None, Some (Err ''empty json received''))"
    by (simp_all add: ToFrames_def ToFrame_def validateJson_def)
next
  assume "\<not> gjson_Valid env ''{''"
  then show "ToFrames env ''{'' options = Return ([], Some (Err ''invalid json response received''))"
    and "ToFrame env ''{'' options = Return (None, Some (Err ''invalid json response received''))"
    by (simp_all add: ToFrames_def ToFrame_def validateJson_def TrimSpace_brace)
next
  assume a: "gjson_Valid env ''[]'' \<and> IsArray (gjson_Parse env ''[]'')
        \<and> gjson_Array env (gjson_Parse env ''[]'') = []
        \<and> FramerType options \<noteq> ''sqlite3'' \<and> RootSelector options = [] \<and> Columns options = []"
  then have r: "resolved_text env ''[]'' options = Some ''[]''"
    by (simp add: resolved_text_def validateJson_def TrimSpace_brace GetRootData_def
                  getColumnValuesFromResponseString_def)
  from a show "ToFrames env ''[]'' options = Return ([], None)"
    by (simp add: ToFrames_resolved [OF r] nonArrayItemsFound_def)
  show "ToFrame env ''[]'' options =
              (case getFrameFromResponseString env ''[]'' options of
                 Inl e \<Rightarrow> Return (None, Some e)
               | Inr frame \<Rightarrow> Return (frame, None))"
    by (rule ToFrame_resolved [OF r])
next
  assume a: "gjson_Valid env ''{}'' \<and> \<not> IsArray (gjson_Parse env ''{}'')
        \<and> FramerType options \<noteq> ''sqlite3'' \<and> RootSelector options = [] \<and> Columns options = []"
  then have r: "resolved_text env ''{}'' options = Some ''{}''"
    by (simp add: resolved_text_def validateJson_def TrimSpace_brace GetRootData_def
                  getColumnValuesFromResponseString_def)
  from a show "ToFrames env ''{}'' options =
              (case getFrameFromResponseString env ''{}'' options of
                 Inl e \<Rightarrow> Return ([], Some e)
               | Inr frame \<Rightarrow> Return (add_frame env options [] frame))"
    by (simp add: ToFrames_resolved [OF r])
  show "ToFrame env ''{}'' options =
              (case getFrameFromResponseString env ''{}'' options of
                 Inl e \<Rightarrow> Return (None, Some e)
               | Inr frame \<Rightarrow> Return (frame, None))"
    by (rule ToFrame_resolved [OF r])
qed

text \<open>\<open>ToFrames\<close> on \<^verbatim>\<open>[]\<close> succeeds and returns no frame at all.\<close>

theorem ToFrames_empty_array_counterexample:
  "ToFrames env0 ''[]'' options0 = Return ([], None)"
  by code_simp

text \<open>
  With the assembler of the spec: a blank, a no-break space (U+00A0) and the text
  \<^verbatim>\<open>{\<close> fail; \<^verbatim>\<open>[]\<close> and \<^verbatim>\<open>{}\<close> give \<open>ToFrame\<close> a frame of no column and no row.
\<close>

theorem validation_of_texts_witness:
  "ToFrames env_spec '' '' options0 = Return ([], Some (Err ''empty json received''))
   \<and> ToFrames env_spec [CHR 0xC2, CHR 0xA0] options0 =
       Return ([], Some (Err ''empty json received''))
   \<and> ToFrame env_spec [CHR 0xC2, CHR 0xA0] options0 =
       Return (None, Some (Err ''empty json received''))
   \<and> ToFrames env_spec ''{'' options0 = Return ([], Some (Err ''invalid json response received''))
   \<and> ToFrame env_spec ''{'' options0 = Return (None, Some (Err ''invalid json response received''))
   \<and> ToFrames env_spec ''[]'' options0 = Return ([], None)
   \<and> ToFrame env_spec ''[]'' options0 =
       Return (Some \<lparr>frame_Name = [], frame_Columns = []\<rparr>, None)
   \<and> ToFrame env_spec ''{}'' options0 =
       Return (Some \<lparr>frame_Name = [], frame_Columns = []\<rparr>, None)
   \<and> ToFrames env_spec ''{}'' options0 =
       Return ([Some \<lparr>frame_Name = [], frame_Columns = []\<rparr>], None)
   \<and> frame_rows \<lparr>frame_Name = [], frame_Columns = []\<rparr> = 0"
proof -
  let ?f = "\<lparr>frame_Name = [], frame_Columns = []\<rparr>"
  have h0: "TrimSpace '' '' = []" by code_simp
  have hs: "\<forall>r \<in> set [[CHR 0xC2, CHR 0xA0]]. IsSpace r" by code_simp
  have h1: "\<not> gjson_Valid env_spec ''{''" by code_simp
  have h2: "gjson_Valid env_spec ''[]'' \<and> IsArray (gjson_Parse env_spec ''[]'')
        \<and> gjson_Array env_spec (gjson_Parse env_spec ''[]'') = []
        \<and> FramerType options0 \<noteq> ''sqlite3'' \<and> RootSelector options0 = [] \<and> Columns options0 = []"
    by code_simp
  have h3: "gjson_Valid env_spec ''{}'' \<and> \<not> IsArray (gjson_Parse env_spec ''{}'')
        \<and> FramerType options0 \<noteq> ''sqlite3'' \<and> RootSelector options0 = [] \<and> Columns options0 = []"
    by code_simp
  have g1: "getFrameFromResponseString env_spec ''[]'' options0 = Inr (Some ?f)" by code_simp
  have g2: "getFrameFromResponseString env_spec ''{}'' options0 = Inr (Some ?f)" by code_simp
  have g3: "add_frame env_spec options0 [] (Some ?f) = ([Some ?f], None)" by code_simp
  have g4: "frame_rows ?f = 0" by (simp add: frame_rows_def)
  from validation_of_texts [of "'' ''" env_spec options0 "[[CHR 0xC2, CHR 0xA0]]"] h0 hs h1 h2 h3
  show ?thesis by (simp add: g1 g2 g3 g4)
qed

subsection \<open>The columns of a projected row\<close>




subsection \<open>Conversion by the declared type\<close>

text \<open>
  C3. With the frame assembler as the spec describes it, and the columns declared under
  distinct names: the frame that \<open>ToFrame\<close> returns has the declared columns, in
  their order, and in the column of a ColumnSpec with a declared type the value of
  each row is the value found at the selector in that row, converted by the declared
  type and time format. The projection itself stores the value as it is found; the
  columns reach the assembler with their types, and the assembler converts. So under
  \<^verbatim>\<open>number\<close> the text \<^verbatim>\<open>"abc"\<close> gives null, and the text \<^verbatim>\<open>"1325376000000"\<close> gives
  2012-01-01 under \<^verbatim>\<open>timestamp_epoch_ms\<close> and a day of the year 43969 under
  \<^verbatim>\<open>timestamp_epoch_s\<close>.
\<close>

theorem conversion_by_declared_type:
  assumes asm: "gframer_ToDataFrame env = spec_ToDataFrame tp"
    and valid: "validateJson env jsonString = None"
    and gjson: "FramerType options \<noteq> ''sqlite3''"
    and root: "GetRootData env jsonString (RootSelector options) = Return (root, None)"
    and cols: "Columns options \<noteq> []"
    and names: "distinct (map column_name (Columns options))"
    and ovs: "OverrideColumns options = []"
    and marshal: "json_Marshal env (JArr (map JObj (projected_rows env root (Columns options)))) = Inr out"
    and unmarshal: "json_Unmarshal env out = Inr (JArr (map JObj (projected_rows env root (Columns options))))"
    and frame: "ToFrame env jsonString options = Return (Some frame, None)"
  shows "map col_name (frame_Columns frame) = map column_name (Columns options)
         \<and> (\<forall>j < length (Columns options).
               \<not> is_auto (Type (Columns options ! j)) \<longrightarrow>
               frame_Columns frame ! j =
                 \<lparr>col_name = column_name (Columns options ! j),
                  col_labels = [],
                  col_type = field_type (Type (Columns options ! j)),
                  col_values =
                    map (\<lambda>raw. coerce tp (Type (Columns options ! j)) (TimeFormat (Columns options ! j))
                                  (cell_of_json
                                     (Value_of env (gjson_Get env raw (Selector (Columns options ! j))))))
                        (input_rows env root)\<rparr>)"
proof -
  let ?rows = "projected_rows env root (Columns options)"
  have proj: "getColumnValuesFromResponseString env root (Columns options) = (out, None)"
    using cols marshal by (simp add: getColumnValuesFromResponseString_def)
  have get: "getFrameFromResponseString env out options =
               spec_ToDataFrame tp (JArr (map JObj ?rows))
                 \<lparr>g_FrameName = FrameName options, g_Columns = Columns options,
                  g_OverrideColumns = OverrideColumns options\<rparr>"
    using unmarshal asm by (simp add: getFrameFromResponseString_def)
  have "ToFrame env jsonString options =
          (case getFrameFromResponseString env out options of
             Inl e \<Rightarrow> Return (None, Some e)
           | Inr fr \<Rightarrow> Return (fr, None))"
    using valid gjson root proj by (simp add: ToFrame_def)
  with frame get have built: "spec_ToDataFrame tp (JArr (map JObj ?rows))
                 \<lparr>g_FrameName = FrameName options, g_Columns = Columns options,
                  g_OverrideColumns = OverrideColumns options\<rparr> = Inr (Some frame)"
    by (simp split: sum.splits)
  then have fc: "frame_Columns frame = map (declared_column tp (map JObj ?rows)) (Columns options)"
    using cols ovs
    by (auto simp: spec_ToDataFrame_def Let_def rows_of_def split: if_splits)
  have name: "col_name (declared_column tp rs c) = column_name c" for rs c
    by (simp add: declared_column_def inferred_column_def)
  have order: "map col_name (frame_Columns frame) = map column_name (Columns options)"
    by (simp add: fc name comp_def)
  have cells: "frame_Columns frame ! j =
                 \<lparr>col_name = column_name (Columns options ! j),
                  col_labels = [],
                  col_type = field_type (Type (Columns options ! j)),
                  col_values =
                    map (\<lambda>raw. coerce tp (Type (Columns options ! j)) (TimeFormat (Columns options ! j))
                                  (cell_of_json
                                     (Value_of env (gjson_Get env raw (Selector (Columns options ! j))))))
                        (input_rows env root)\<rparr>"
    if j: "j < length (Columns options)" and ty: "\<not> is_auto (Type (Columns options ! j))" for j
  proof -
    let ?c = "Columns options ! j"
    have mem: "?c \<in> set (Columns options)" using j by simp
    have "row_cell (JObj (project_row env raw (Columns options))) (column_name ?c) =
            cell_of_json (Value_of env (gjson_Get env raw (Selector ?c)))" for raw
      by (simp add: row_cell_def project_row_lookup_distinct [OF mem names])
    then show ?thesis
      using j ty by (simp add: fc declared_column_def projected_rows_input_rows comp_def)
  qed
  from order cells show ?thesis by blast
qed

text \<open>
  The row \<^verbatim>\<open>{"foo":"abc","t":"1325376000000"}\<close> under the columns \<^verbatim>\<open>foo\<close> as a
  number, \<^verbatim>\<open>t\<close> as milliseconds under the name \<^verbatim>\<open>ms\<close>, and \<^verbatim>\<open>t\<close> as seconds under
  the name \<^verbatim>\<open>s\<close>.
\<close>

theorem conversion_by_declared_type_witness:
  "ToFrame env_spec ''{\"foo\":\"abc\",\"t\":\"1325376000000\"}''
     (options0\<lparr>Columns := [typed_column ''foo'' [] ''number'',
                            typed_column ''t'' ''ms'' ''timestamp_epoch_ms'',
                            typed_column ''t'' ''s'' ''timestamp_epoch_s'']\<rparr>) =
     Return (Some \<lparr>frame_Name = [],
                   frame_Columns =
                     [\<lparr>col_name = ''foo'', col_labels = [], col_type = FieldTypeNumber,
                       col_values = [CNull]\<rparr>,
                      \<lparr>col_name = ''ms'', col_labels = [], col_type = FieldTypeTime,
                       col_values = [CTime 1325376000000]\<rparr>,
                      \<lparr>col_name = ''s'', col_labels = [], col_type = FieldTypeTime,
                       col_values = [CTime 1325376000000000]\<rparr>]\<rparr>, None)
   \<and> input_rows env_spec ''{\"foo\":\"abc\",\"t\":\"1325376000000\"}'' =
       [''{\"foo\":\"abc\",\"t\":\"1325376000000\"}'']
   \<and> Value_of env_spec (gjson_Get env_spec ''{\"foo\":\"abc\",\"t\":\"1325376000000\"}'' ''foo'') =
       JStr ''abc''
   \<and> Value_of env_spec (gjson_Get env_spec ''{\"foo\":\"abc\",\"t\":\"1325376000000\"}'' ''t'') =
       JStr ''1325376000000''
   \<and> coerce parse_time0 ''number'' [] (CStr ''abc'') = CNull
   \<and> coerce parse_time0 ''timestamp_epoch_ms'' [] (CStr ''1325376000000'') = CTime 1325376000000
   \<and> coerce parse_time0 ''timestamp_epoch_s'' [] (CStr ''1325376000000'') = CTime 1325376000000000
   \<and> date_of 1325376000000 = (2012, 1, 1)
   \<and> date_of 1325376000000000 = (43969, 6, 30)"
proof -
  let ?s = "''{\"foo\":\"abc\",\"t\":\"1325376000000\"}''"
  let ?cols = "[typed_column ''foo'' [] ''number'',
                typed_column ''t'' ''ms'' ''timestamp_epoch_ms'',
                typed_column ''t'' ''s'' ''timestamp_epoch_s'']"
  let ?o = "options0\<lparr>Columns := ?cols\<rparr>"
  let ?out = "''[{\"foo\":\"abc\",\"ms\":\"1325376000000\",\"s\":\"1325376000000\"}]''"
  let ?F = "\<lparr>frame_Name = [],
             frame_Columns =
               [\<lparr>col_name = ''foo'', col_labels = [], col_type = FieldTypeNumber,
                 col_values = [CNull]\<rparr>,
                \<lparr>col_name = ''ms'', col_labels = [], col_type = FieldTypeTime,
                 col_values = [CTime 1325376000000]\<rparr>,
                \<lparr>col_name = ''s'', col_labels = [], col_type = FieldTypeTime,
                 col_values = [CTime 1325376000000000]\<rparr>]\<rparr>"
  have h1: "gframer_ToDataFrame env_spec = spec_ToDataFrame parse_time0"
    by (simp add: env_spec_def)
  have h2: "validateJson env_spec ?s = None" by code_simp
  have h3: "FramerType ?o \<noteq> ''sqlite3''" by (simp add: options0_def)
  have h4: "GetRootData env_spec ?s (RootSelector ?o) = Return (?s, None)" by code_simp
  have h5: "Columns ?o \<noteq> []" by simp
  have h6: "distinct (map column_name (Columns ?o))" by code_simp
  have h7: "OverrideColumns ?o = []" by (simp add: options0_def)
  have h8: "json_Marshal env_spec (JArr (map JObj (projected_rows env_spec ?s (Columns ?o)))) = Inr ?out"
    by code_simp
  have h9: "json_Unmarshal env_spec ?out = Inr (JArr (map JObj (projected_rows env_spec ?s (Columns ?o))))"
    by code_simp
  have h10: "ToFrame env_spec ?s ?o = Return (Some ?F, None)" by code_simp
  note th = conversion_by_declared_type [OF h1 h2 h3 h4 h5 h6 h7 h8 h9 h10]
  have e1: "input_rows env_spec ?s = [?s]" by code_simp
  have e2: "Value_of env_spec (gjson_Get env_spec ?s ''foo'') = JStr ''abc''" by code_simp
  have e3: "Value_of env_spec (gjson_Get env_spec ?s ''t'') = JStr ''1325376000000''" by code_simp
  have a0: "\<not> is_auto (Type (Columns ?o ! 0))" by code_simp
  have a1: "\<not> is_auto (Type (Columns ?o ! 1))" by code_simp
  have a2: "\<not> is_auto (Type (Columns ?o ! 2))" by code_simp
  have l0: "0 < length (Columns ?o)" and l1: "1 < length (Columns ?o)"
    and l2: "2 < length (Columns ?o)" by simp_all
  from th [THEN conjunct2, rule_format, OF l0 a0]
  have c0: "coerce parse_time0 ''number'' [] (CStr ''abc'') = CNull"
    by (simp add: e1 e2 typed_column_def)
  from th [THEN conjunct2, rule_format, OF l1 a1]
  have c1: "coerce parse_time0 ''timestamp_epoch_ms'' [] (CStr ''1325376000000'') =
                   CTime 1325376000000"
    by (simp add: e1 e3 typed_column_def)
  from th [THEN conjunct2, rule_format, OF l2 a2]
  have c2: "coerce parse_time0 ''timestamp_epoch_s'' [] (CStr ''1325376000000'') =
                   CTime 1325376000000000"
    by (simp add: e1 e3 typed_column_def)
  have d1: "date_of 1325376000000 = (2012, 1, 1)" by code_simp
  have d2: "date_of 1325376000000000 = (43969, 6, 30)" by code_simp
  from h10 e1 e2 e3 c0 c1 c2 d1 d2 show ?thesis by blast
qed

end
